theory Spec2Isabelle
  imports Main "HOL-Library.Word"
begin

section \<open>Data model of main.go\<close>

text \<open>
  Go strings are byte sequences: \<open>string\<close> (a list of 8-bit characters). \<open>int64\<close> is a
  64-bit word, whose \<open>+\<close> and \<open>-\<close> wrap as Go's do. A Go \<open>int\<close> that only counts or
  indexes a slice is a \<open>nat\<close>; the one \<open>int\<close> that takes the value \<open>-1\<close>
  (\<open>tableIdx\<close>) is an \<open>int\<close>.
\<close>

type_synonym int64 = "64 word"

record row =
  entries :: "string list"

record table =
  contents :: "row list"

definition CONFLUENCE_URL :: string where
  "CONFLUENCE_URL = ''https://confluence.hflabs.ru/pages/viewpage.action?pageId=1181220999''"

definition CREDENTIALS_PATH :: string where
  "CREDENTIALS_PATH = ''credentials.json''"

definition DOCUMENT_ID_PATH :: string where
  "DOCUMENT_ID_PATH = ''document_id.txt''"

definition TOKEN_PATH :: string where
  "TOKEN_PATH = ''token.json''"

subsection \<open>The document types of the Docs API client\<close>

text \<open>
  The types of \<open>google.golang.org/api/docs/v1\<close> are declared outside the repository;
  the records below hold the fields main.go reads. A Go pointer is an \<open>option\<close>
  (\<open>None\<close> is \<open>nil\<close>), a slice of pointers a list of options.
\<close>

record TableCell =
  cell_StartIndex :: int64

record TableRow =
  TableCells :: "TableCell option list"

record Table =
  TableRows :: "TableRow option list"

record StructuralElement =
  StartIndex :: int64
  EndIndex :: int64
  Table :: "Table option"

record Body =
  Content :: "StructuralElement option list"

record Document =
  DocumentId :: string
  Body :: "Body option"

text \<open>
  The three kinds of \<open>docs.Request\<close> the program builds:
  \<open>DeleteContentRange start end\<close> (the \<open>Range\<close> of the request),
  \<open>InsertTable rows columns\<close> (always at the end of the segment) and
  \<open>InsertText text index\<close> (the \<open>Location\<close> of the request).
\<close>

datatype request =
    DeleteContentRange int64 int64
  | InsertTable int64 int64
  | InsertText string int64

subsection \<open>Errors, fatal exits and panics\<close>

text \<open>
  An error of a library or of the outside world is opaque: \<open>External\<close> with its text.
  The other constructors are the errors main.go builds with \<open>fmt.Errorf\<close>.
\<close>

type_synonym exterr = string

datatype error =
    External exterr
  | NonOkayStatus int string
  | UnableToReadSecret exterr
  | UnableToParseSecret exterr
  | UnableToRetrieveDocs exterr
  | EmptyTable
  | InvalidTable nat nat nat
  | NoLastTable

text \<open>The diagnostics of the \<open>log.Fatalf\<close> calls, which end the process.\<close>

datatype diagnostic =
    FailedToGetTables error
  | FailedToGetService error
  | FailedToGetDocument error
  | UnableToReadAuthCode exterr
  | UnableToRetrieveToken exterr
  | UnableToCacheToken exterr

datatype panic =
    NilDereference
  | IndexOutOfRange nat nat
  | LibraryPanic string

datatype halt =
    Fatal diagnostic
  | Panic panic

text \<open>
  What a function of main.go does: it returns a value (\<open>Ok\<close>), returns an error
  (\<open>Failed\<close>), or the process ends inside it (\<open>Halted\<close>).
\<close>

datatype 'a result =
    Ok 'a
  | Failed error
  | Halted halt

subsection \<open>The outside world\<close>

text \<open>
  Every effect of the program is an entry of the history, a list of calls in the order they
  were made. The answers of the outside world are the fields of an environment; an
  answer may depend on the whole history before the call, so any sequence of answers
  of the web server, the file system, the console and the Docs service is some
  environment. The \<open>log.Println\<close> lines and the closing of files and response bodies are
  not recorded.
\<close>

datatype message =
    ErrorMsg error
  | AuthPrompt string
  | SavingCredential string

datatype call =
    HttpGet string
  | ReadFile string
  | WriteFile string string
  | OpenRead string
  | OpenWrite string
  | EncodeToken string string
  | ScanStdin
  | Exchange string string
  | NewService string string
  | DocsGet string
  | DocsCreate string
  | DocsBatchUpdate string "request list"
  | Print message

type_synonym world = "call list"

record 'b response =
  StatusCode :: int
  Status :: string
  RespBody :: 'b

text \<open>
  What \<open>html2text.FromString\<close> does on a string: it returns the text, returns an error, or
  panics inside the library, with the text of the panic.
\<close>

datatype conversion =
    Text string
  | ConversionError exterr
  | ConversionPanic string

text \<open>
  \<open>'b\<close> is the body of an HTTP response, \<open>'n\<close> a node of the parsed page (a goquery
  selection of one element, or the document). An OAuth configuration and a token are
  the strings of their JSON.
\<close>

record ('b, 'n) env =
  http_Get :: "world \<Rightarrow> string \<Rightarrow> exterr + 'b response"
  NewDocumentFromReader :: "'b \<Rightarrow> exterr + 'n"
  Find :: "'n \<Rightarrow> string \<Rightarrow> 'n list"
  Html :: "'n \<Rightarrow> string"
  html2text_FromString :: "string \<Rightarrow> conversion"
  os_ReadFile :: "world \<Rightarrow> string \<Rightarrow> exterr + string"
  os_WriteFile :: "world \<Rightarrow> string \<Rightarrow> string \<Rightarrow> exterr option"
  os_Open :: "world \<Rightarrow> string \<Rightarrow> exterr + string"
  os_OpenFile :: "world \<Rightarrow> string \<Rightarrow> exterr option"
  DecodeToken :: "string \<Rightarrow> exterr + string"
  ConfigFromJSON :: "string \<Rightarrow> exterr + string"
  AuthCodeURL :: "string \<Rightarrow> string"
  fmt_Scan :: "world \<Rightarrow> exterr + string"
  config_Exchange :: "world \<Rightarrow> string \<Rightarrow> string \<Rightarrow> exterr + string"
  docs_NewService :: "world \<Rightarrow> string \<Rightarrow> string \<Rightarrow> exterr option"
  Documents_Get :: "world \<Rightarrow> string \<Rightarrow> exterr + Document"
  Documents_Create :: "world \<Rightarrow> string \<Rightarrow> exterr + Document"
  Documents_BatchUpdate :: "world \<Rightarrow> string \<Rightarrow> request list \<Rightarrow> exterr option"

section \<open>Counting runes\<close>

text \<open>
  \<open>utf8.RuneCountInString\<close> of Go's standard library, on the bytes of the string: an
  ASCII byte is one rune, a well-formed UTF-8 sequence of two to four bytes is one rune,
  and any other byte is one rune by itself. \<open>runeWidth c cs\<close> is the number of bytes the
  loop of the library advances by at the byte \<open>c\<close> followed by \<open>cs\<close>.
\<close>

definition runeWidth :: "char \<Rightarrow> string \<Rightarrow> nat" where
  "runeWidth c cs =
     (let b = (of_char c :: nat) in
      if b < 0x80 then 1
      else if b < 0xC2 \<or> 0xF4 < b then 1
      else
        let size = (if b < 0xE0 then 2 else if b < 0xF0 then 3 else 4 :: nat);
            lo = (if b = 0xE0 then 0xA0 else if b = 0xF0 then 0x90 else 0x80 :: nat);
            hi = (if b = 0xED then 0x9F else if b = 0xF4 then 0x8F else 0xBF :: nat)
        in
          if Suc (length cs) < size then 1
          else if (of_char (cs ! 0) :: nat) < lo \<or> hi < (of_char (cs ! 0) :: nat) then 1
          else if size = 2 then 2
          else if (of_char (cs ! 1) :: nat) < 0x80 \<or> 0xBF < (of_char (cs ! 1) :: nat) then 1
          else if size = 3 then 3
          else if (of_char (cs ! 2) :: nat) < 0x80 \<or> 0xBF < (of_char (cs ! 2) :: nat) then 1
          else 4)"

fun RuneCountInString :: "string \<Rightarrow> nat" where
  "RuneCountInString [] = 0"
| "RuneCountInString (c # cs) = Suc (RuneCountInString (drop (runeWidth c cs - 1) cs))"

section \<open>The document writer\<close>

subsection \<open>clearDocument\<close>

definition clearDocument :: "('b, 'n) env \<Rightarrow> string \<Rightarrow> world \<Rightarrow> unit result \<times> world" where
  "clearDocument env docId w =
     (let w1 = w @ [DocsGet docId] in
      case Documents_Get env w docId of
        Inl err \<Rightarrow> (Failed (External err), w1)
      | Inr doc \<Rightarrow>
          (case Body doc of
             None \<Rightarrow> (Halted (Panic NilDereference), w1)
           | Some body \<Rightarrow>
               let bodyContentLength = length (Content body) in
               if bodyContentLength = 0 then (Ok (), w1)
               else
                 (case Content body ! 0 of
                    None \<Rightarrow> (Halted (Panic NilDereference), w1)
                  | Some first \<Rightarrow>
                      (case Content body ! (bodyContentLength - 1) of
                         None \<Rightarrow> (Halted (Panic NilDereference), w1)
                       | Some lst \<Rightarrow>
                           let startIndex = StartIndex first;
                               endIndex = EndIndex lst;
                               requests = [DeleteContentRange (startIndex + 1) (endIndex - 1)];
                               w2 = w1 @ [DocsBatchUpdate docId requests]
                           in
                             (case Documents_BatchUpdate env w1 docId requests of
                                Some err \<Rightarrow> (Failed (External err), w2)
                              | None \<Rightarrow> (Ok (), w2))))))"

subsection \<open>insertTableToDocument\<close>

text \<open>The validation loop over the rows, from row \<open>i\<close> on.\<close>

fun checkRows :: "row list \<Rightarrow> nat \<Rightarrow> nat \<Rightarrow> error option" where
  "checkRows [] colCnt i = None"
| "checkRows (r # rs) colCnt i =
     (if length (entries r) \<noteq> colCnt
      then Some (InvalidTable colCnt (length (entries r)) (i + 1))
      else checkRows rs colCnt (Suc i))"

text \<open>
  The scan of the body for the last element that is a table, from element \<open>i\<close> on.
  Reading \<open>.Table\<close> of a nil element panics.
\<close>

fun findLastTable :: "StructuralElement option list \<Rightarrow> int \<Rightarrow> int \<Rightarrow> halt + int" where
  "findLastTable [] i tableIdx = Inr tableIdx"
| "findLastTable (None # rest) i tableIdx = Inl (Panic NilDereference)"
| "findLastTable (Some e # rest) i tableIdx =
     findLastTable rest (i + 1) (if Table e \<noteq> None then i else tableIdx)"

text \<open>
  The inner loop over the cells of one row of the document's table, from cell
  \<open>cellIdx\<close> on, and the outer loop over its rows, from row \<open>rowIdx\<close> on. Both carry
  the requests built so far and \<open>totalInserted\<close>. A nil row or cell is skipped; for any
  other cell the text is \<open>tbl.contents[rowIdx].entries[cellIdx]\<close>, and an index out of
  range panics.
\<close>

fun cellsLoop ::
  "table \<Rightarrow> nat \<Rightarrow> TableCell option list \<Rightarrow> nat \<Rightarrow> request list \<Rightarrow> int64
     \<Rightarrow> halt + (request list \<times> int64)" where
  "cellsLoop tbl rowIdx [] cellIdx requests totalInserted = Inr (requests, totalInserted)"
| "cellsLoop tbl rowIdx (None # cells) cellIdx requests totalInserted =
     cellsLoop tbl rowIdx cells (Suc cellIdx) requests totalInserted"
| "cellsLoop tbl rowIdx (Some cell # cells) cellIdx requests totalInserted =
     (if length (contents tbl) \<le> rowIdx
      then Inl (Panic (IndexOutOfRange rowIdx (length (contents tbl))))
      else if length (entries (contents tbl ! rowIdx)) \<le> cellIdx
      then Inl (Panic (IndexOutOfRange cellIdx (length (entries (contents tbl ! rowIdx)))))
      else
        let text = entries (contents tbl ! rowIdx) ! cellIdx in
        cellsLoop tbl rowIdx cells (Suc cellIdx)
          (requests @ [InsertText text (cell_StartIndex cell + 1 + totalInserted)])
          (totalInserted + of_nat (RuneCountInString text)))"

fun rowsLoop ::
  "table \<Rightarrow> TableRow option list \<Rightarrow> nat \<Rightarrow> request list \<Rightarrow> int64
     \<Rightarrow> halt + (request list \<times> int64)" where
  "rowsLoop tbl [] rowIdx requests totalInserted = Inr (requests, totalInserted)"
| "rowsLoop tbl (None # rows) rowIdx requests totalInserted =
     rowsLoop tbl rows (Suc rowIdx) requests totalInserted"
| "rowsLoop tbl (Some r # rows) rowIdx requests totalInserted =
     (case cellsLoop tbl rowIdx (TableCells r) 0 requests totalInserted of
        Inl h \<Rightarrow> Inl h
      | Inr (requests', totalInserted') \<Rightarrow>
          rowsLoop tbl rows (Suc rowIdx) requests' totalInserted')"

definition insertTableToDocument ::
  "('b, 'n) env \<Rightarrow> string \<Rightarrow> table \<Rightarrow> world \<Rightarrow> unit result \<times> world" where
  "insertTableToDocument env docId tbl w =
     (let rowCnt = length (contents tbl) in
      if rowCnt = 0 then (Failed EmptyTable, w)
      else
        let colCnt = length (entries (contents tbl ! 0)) in
        case checkRows (contents tbl) colCnt 0 of
          Some err \<Rightarrow> (Failed err, w)
        | None \<Rightarrow>
            let create = [InsertTable (of_nat rowCnt) (of_nat colCnt)];
                w1 = w @ [DocsBatchUpdate docId create]
            in
              (case Documents_BatchUpdate env w docId create of
                 Some err \<Rightarrow> (Failed (External err), w1)
               | None \<Rightarrow>
                   let w2 = w1 @ [DocsGet docId] in
                   (case Documents_Get env w1 docId of
                      Inl err \<Rightarrow> (Failed (External err), w2)
                    | Inr doc \<Rightarrow>
                        (case Body doc of
                           None \<Rightarrow> (Halted (Panic NilDereference), w2)
                         | Some body \<Rightarrow>
                             (case findLastTable (Content body) 0 (- 1) of
                                Inl h \<Rightarrow> (Halted h, w2)
                              | Inr tableIdx \<Rightarrow>
                                  if tableIdx = - 1 then (Failed NoLastTable, w2)
                                  else
                                    (case Content body ! nat tableIdx of
                                       None \<Rightarrow> (Halted (Panic NilDereference), w2)
                                     | Some element \<Rightarrow>
                                         (case Table element of
                                            None \<Rightarrow> (Halted (Panic NilDereference), w2)
                                          | Some t \<Rightarrow>
                                              (case rowsLoop tbl (TableRows t) 0 [] 0 of
                                                 Inl h \<Rightarrow> (Halted h, w2)
                                               | Inr (requests, totalInserted) \<Rightarrow>
                                                   let w3 = w2 @ [DocsBatchUpdate docId requests] in
                                                   (case Documents_BatchUpdate env w2 docId requests of
                                                      Some err \<Rightarrow> (Failed (External err), w3)
                                                    | None \<Rightarrow> (Ok (), w3))))))))))"

section \<open>The table scraper\<close>

text \<open>
  \<open>stripHtmlTags\<close> has no \<open>recover\<close>: a panic of the converter goes through it.
\<close>

definition stripHtmlTags :: "('b, 'n) env \<Rightarrow> string \<Rightarrow> halt + string" where
  "stripHtmlTags env s =
     (case html2text_FromString env s of
        Text text \<Rightarrow> Inr text
      | ConversionError err \<Rightarrow> Inr s
      | ConversionPanic p \<Rightarrow> Inl (Panic (LibraryPanic p)))"

text \<open>
  The three nested \<open>Each\<close> callbacks of \<open>getTables\<close>, each a loop over the selected nodes
  in the order of the selection, with the row, the table and the list of tables built so
  far. A panic in a callback ends the loops.
\<close>

fun scrapeCells :: "('b, 'n) env \<Rightarrow> 'n list \<Rightarrow> row \<Rightarrow> halt + row" where
  "scrapeCells env [] row = Inr row"
| "scrapeCells env (cellSelection # rest) row =
     (case stripHtmlTags env (Html env cellSelection) of
        Inl h \<Rightarrow> Inl h
      | Inr text \<Rightarrow> scrapeCells env rest (row\<lparr>entries := entries row @ [text]\<rparr>))"

fun scrapeRows :: "('b, 'n) env \<Rightarrow> 'n list \<Rightarrow> table \<Rightarrow> halt + table" where
  "scrapeRows env [] tbl = Inr tbl"
| "scrapeRows env (rowSelection # rest) tbl =
     (case scrapeCells env (Find env rowSelection ''td, th'') \<lparr>entries = []\<rparr> of
        Inl h \<Rightarrow> Inl h
      | Inr row \<Rightarrow> scrapeRows env rest (tbl\<lparr>contents := contents tbl @ [row]\<rparr>))"

fun scrapeTables :: "('b, 'n) env \<Rightarrow> 'n list \<Rightarrow> table list \<Rightarrow> halt + table list" where
  "scrapeTables env [] tables = Inr tables"
| "scrapeTables env (tableSelection # rest) tables =
     (case scrapeRows env (Find env tableSelection ''tr'') \<lparr>contents = []\<rparr> of
        Inl h \<Rightarrow> Inl h
      | Inr tbl \<Rightarrow> scrapeTables env rest (tables @ [tbl]))"

definition getTables :: "('b, 'n) env \<Rightarrow> world \<Rightarrow> table list result \<times> world" where
  "getTables env w =
     (let w1 = w @ [HttpGet CONFLUENCE_URL] in
      case http_Get env w CONFLUENCE_URL of
        Inl err \<Rightarrow> (Failed (External err), w1)
      | Inr response \<Rightarrow>
          if StatusCode response \<noteq> 200
          then (Failed (NonOkayStatus (StatusCode response) (Status response)), w1)
          else
            (case NewDocumentFromReader env (RespBody response) of
               Inl err \<Rightarrow> (Failed (External err), w1)
             | Inr document \<Rightarrow>
                 (case scrapeTables env (Find env document ''.confluenceTable'') [] of
                    Inl h \<Rightarrow> (Halted h, w1)
                  | Inr tables \<Rightarrow> (Ok tables, w1))))"

section \<open>The credential manager\<close>

definition tokenFromFile :: "('b, 'n) env \<Rightarrow> string \<Rightarrow> world \<Rightarrow> (exterr + string) \<times> world" where
  "tokenFromFile env file w =
     (let w1 = w @ [OpenRead file] in
      case os_Open env w file of
        Inl err \<Rightarrow> (Inl err, w1)
      | Inr f \<Rightarrow> (DecodeToken env f, w1))"

definition getTokenFromWeb :: "('b, 'n) env \<Rightarrow> string \<Rightarrow> world \<Rightarrow> string result \<times> world" where
  "getTokenFromWeb env config w =
     (let w1 = w @ [Print (AuthPrompt (AuthCodeURL env config))];
          w2 = w1 @ [ScanStdin]
      in
        case fmt_Scan env w1 of
          Inl err \<Rightarrow> (Halted (Fatal (UnableToReadAuthCode err)), w2)
        | Inr authCode \<Rightarrow>
            let w3 = w2 @ [Exchange config authCode] in
            (case config_Exchange env w2 config authCode of
               Inl err \<Rightarrow> (Halted (Fatal (UnableToRetrieveToken err)), w3)
             | Inr tok \<Rightarrow> (Ok tok, w3)))"

definition saveToken :: "('b, 'n) env \<Rightarrow> string \<Rightarrow> string \<Rightarrow> world \<Rightarrow> unit result \<times> world" where
  "saveToken env path token w =
     (let w1 = w @ [Print (SavingCredential path)];
          w2 = w1 @ [OpenWrite path]
      in
        case os_OpenFile env w1 path of
          Some err \<Rightarrow> (Halted (Fatal (UnableToCacheToken err)), w2)
        | None \<Rightarrow> (Ok (), w2 @ [EncodeToken path token]))"

text \<open>The client is the configuration with the token.\<close>

definition getClient ::
  "('b, 'n) env \<Rightarrow> string \<Rightarrow> world \<Rightarrow> (string \<times> string) result \<times> world" where
  "getClient env config w =
     (case tokenFromFile env TOKEN_PATH w of
        (Inr tok, w1) \<Rightarrow> (Ok (config, tok), w1)
      | (Inl err, w1) \<Rightarrow>
          (case getTokenFromWeb env config w1 of
             (Halted h, w2) \<Rightarrow> (Halted h, w2)
           | (Failed e, w2) \<Rightarrow> (Failed e, w2)
           | (Ok tok, w2) \<Rightarrow>
               (case saveToken env TOKEN_PATH tok w2 of
                  (Halted h, w3) \<Rightarrow> (Halted h, w3)
                | (Failed e, w3) \<Rightarrow> (Failed e, w3)
                | (Ok u, w3) \<Rightarrow> (Ok (config, tok), w3))))"

definition getService :: "('b, 'n) env \<Rightarrow> world \<Rightarrow> (string \<times> string) result \<times> world" where
  "getService env w =
     (let w1 = w @ [ReadFile CREDENTIALS_PATH] in
      case os_ReadFile env w CREDENTIALS_PATH of
        Inl err \<Rightarrow> (Failed (UnableToReadSecret err), w1)
      | Inr b \<Rightarrow>
          (case ConfigFromJSON env b of
             Inl err \<Rightarrow> (Failed (UnableToParseSecret err), w1)
           | Inr config \<Rightarrow>
               (case getClient env config w1 of
                  (Halted h, w2) \<Rightarrow> (Halted h, w2)
                | (Failed e, w2) \<Rightarrow> (Failed e, w2)
                | (Ok (cfg, tok), w2) \<Rightarrow>
                    let w3 = w2 @ [NewService cfg tok] in
                    (case docs_NewService env w2 cfg tok of
                       Some err \<Rightarrow> (Failed (UnableToRetrieveDocs err), w3)
                     | None \<Rightarrow> (Ok (cfg, tok), w3)))))"

section \<open>The document locator\<close>

text \<open>
  The service handle \<open>srv\<close> of the Go functions is the environment here. On the create
  path \<open>os.WriteFile\<close> is called and what it returns is dropped.
\<close>

definition getDocument :: "('b, 'n) env \<Rightarrow> world \<Rightarrow> Document result \<times> world" where
  "getDocument env w =
     (let w1 = w @ [ReadFile DOCUMENT_ID_PATH] in
      case os_ReadFile env w DOCUMENT_ID_PATH of
        Inr documentIdBytes \<Rightarrow>
          let w2 = w1 @ [DocsGet documentIdBytes] in
          (case Documents_Get env w1 documentIdBytes of
             Inl err \<Rightarrow> (Failed (External err), w2)
           | Inr doc \<Rightarrow> (Ok doc, w2))
      | Inl readErr \<Rightarrow>
          let w2 = w1 @ [DocsCreate ''HFLabsTestTaskTableDocument''] in
          (case Documents_Create env w1 ''HFLabsTestTaskTableDocument'' of
             Inl err \<Rightarrow> (Failed (External err), w2)
           | Inr doc \<Rightarrow>
               let dropped = os_WriteFile env w2 DOCUMENT_ID_PATH (DocumentId doc) in
               (Ok doc, w2 @ [WriteFile DOCUMENT_ID_PATH (DocumentId doc)])))"

section \<open>The driver\<close>

text \<open>The loop of \<open>main\<close> over the scraped tables.\<close>

fun insertTables ::
  "('b, 'n) env \<Rightarrow> string \<Rightarrow> table list \<Rightarrow> world \<Rightarrow> unit result \<times> world" where
  "insertTables env docId [] w = (Ok (), w)"
| "insertTables env docId (tbl # tbls) w =
     (case insertTableToDocument env docId tbl w of
        (Halted h, w1) \<Rightarrow> (Halted h, w1)
      | (Failed err, w1) \<Rightarrow> insertTables env docId tbls (w1 @ [Print (ErrorMsg err)])
      | (Ok u, w1) \<Rightarrow> insertTables env docId tbls w1)"

text \<open>
  \<open>main\<close> returns \<open>Ok ()\<close> when it runs to its end (the state Done), and
  \<open>Halted (Fatal d)\<close> when a \<open>log.Fatalf\<close> ends the process with the diagnostic \<open>d\<close>.
\<close>

definition main :: "('b, 'n) env \<Rightarrow> world \<Rightarrow> unit result \<times> world" where
  "main env w =
     (case getTables env w of
        (Halted h, w1) \<Rightarrow> (Halted h, w1)
      | (Failed err, w1) \<Rightarrow> (Halted (Fatal (FailedToGetTables err)), w1)
      | (Ok tables, w1) \<Rightarrow>
          (case getService env w1 of
             (Halted h, w2) \<Rightarrow> (Halted h, w2)
           | (Failed err, w2) \<Rightarrow> (Halted (Fatal (FailedToGetService err)), w2)
           | (Ok srv, w2) \<Rightarrow>
               (case getDocument env w2 of
                  (Halted h, w3) \<Rightarrow> (Halted h, w3)
                | (Failed err, w3) \<Rightarrow> (Halted (Fatal (FailedToGetDocument err)), w3)
                | (Ok doc, w3) \<Rightarrow>
                    (case clearDocument env (DocumentId doc) w3 of
                       (Halted h, w4) \<Rightarrow> (Halted h, w4)
                     | (Failed err, w4) \<Rightarrow>
                         insertTables env (DocumentId doc) tables (w4 @ [Print (ErrorMsg err)])
                     | (Ok u, w4) \<Rightarrow> insertTables env (DocumentId doc) tables w4))))"

section \<open>Notions used in the statements\<close>

text \<open>The tables of a document body, in the order of the body.\<close>

fun bodyTables :: "StructuralElement option list \<Rightarrow> Table list" where
  "bodyTables [] = []"
| "bodyTables (None # rest) = bodyTables rest"
| "bodyTables (Some e # rest) =
     (case Table e of None \<Rightarrow> bodyTables rest | Some t \<Rightarrow> t # bodyTables rest)"

text \<open>
  The trace an attempted insertion of a table leaves in the history of a run of \<open>main\<close>:
  the printed validation error of a table that is rejected, the insert-table request of
  any other table.
\<close>

fun isAttempt :: "call \<Rightarrow> bool" where
  "isAttempt (DocsBatchUpdate docId [InsertTable r c]) = True"
| "isAttempt (Print (ErrorMsg EmptyTable)) = True"
| "isAttempt (Print (ErrorMsg (InvalidTable c n k))) = True"
| "isAttempt other = False"

definition attemptOf :: "string \<Rightarrow> table \<Rightarrow> call" where
  "attemptOf docId tbl =
     (if contents tbl = [] then Print (ErrorMsg EmptyTable)
      else
        case checkRows (contents tbl) (length (entries (contents tbl ! 0))) 0 of
          Some err \<Rightarrow> Print (ErrorMsg err)
        | None \<Rightarrow>
            DocsBatchUpdate docId
              [InsertTable (of_nat (length (contents tbl)))
                 (of_nat (length (entries (contents tbl ! 0))))])"

text \<open>
  The insert-text requests for cells that start at \<open>ss\<close> and take the texts \<open>ts\<close>, one
  after the other, when \<open>totalInserted\<close> runes were inserted before.
\<close>

fun offsetRequests :: "int64 list \<Rightarrow> string list \<Rightarrow> int64 \<Rightarrow> request list" where
  "offsetRequests (s # ss) (t # ts) totalInserted =
     InsertText t (s + 1 + totalInserted) #
       offsetRequests ss ts (totalInserted + of_nat (RuneCountInString t))"
| "offsetRequests ss ts totalInserted = []"

text \<open>
  The text of a scraped cell when the converter does not panic on it: the converted
  text, or the inner HTML of the cell when the conversion returns an error.
\<close>

definition cellText :: "('b, 'n) env \<Rightarrow> 'n \<Rightarrow> string" where
  "cellText env cellSelection =
     (case html2text_FromString env (Html env cellSelection) of
        Text text \<Rightarrow> text
      | ConversionError err \<Rightarrow> Html env cellSelection
      | ConversionPanic p \<Rightarrow> Html env cellSelection)"

text \<open>The cells of a parsed page, in the order they are scraped.\<close>

definition pageCells :: "('b, 'n) env \<Rightarrow> 'n \<Rightarrow> 'n list" where
  "pageCells env document =
     concat (map (\<lambda>rowSelection. Find env rowSelection ''td, th'')
       (concat (map (\<lambda>tableSelection. Find env tableSelection ''tr'')
          (Find env document ''.confluenceTable''))))"

text \<open>The converter panics on the inner HTML of a cell.\<close>

definition panics :: "('b, 'n) env \<Rightarrow> 'n \<Rightarrow> bool" where
  "panics env cellSelection =
     (case html2text_FromString env (Html env cellSelection) of
        ConversionPanic p \<Rightarrow> True
      | Text text \<Rightarrow> False
      | ConversionError err \<Rightarrow> False)"

text \<open>
  The history after the driver has dealt with what a step returned: an error is
  printed, and nothing else is done. \<open>afterInsertions\<close> is the history after every table
  of a list was inserted so, one after the other.
\<close>

definition logged :: "unit result \<Rightarrow> world \<Rightarrow> world" where
  "logged r w = (case r of Failed err \<Rightarrow> w @ [Print (ErrorMsg err)] | Ok u \<Rightarrow> w | Halted h \<Rightarrow> w)"

definition afterInsertion :: "('b, 'n) env \<Rightarrow> string \<Rightarrow> world \<Rightarrow> table \<Rightarrow> world" where
  "afterInsertion env docId w tbl =
     logged (fst (insertTableToDocument env docId tbl w))
       (snd (insertTableToDocument env docId tbl w))"

definition afterInsertions :: "('b, 'n) env \<Rightarrow> string \<Rightarrow> table list \<Rightarrow> world \<Rightarrow> world" where
  "afterInsertions env docId tbls w = foldl (afterInsertion env docId) w tbls"

section \<open>A sample environment\<close>

text \<open>
  A page with two elements of class \<open>confluenceTable\<close>: node 1, with one row (node 3) of
  one cell (node 4), and node 2, with no row. The text converter fails, the identifier of
  the document is in no file and cannot be written, and the document is empty.
\<close>

definition env0 :: "(unit, nat) env" where
  "env0 =
     \<lparr>http_Get = (\<lambda>h url. Inr \<lparr>StatusCode = 200, Status = ''200 OK'', RespBody = ()\<rparr>),
      NewDocumentFromReader = (\<lambda>b. Inr 0),
      Find = (\<lambda>n sel.
        if n = 0 \<and> sel = ''.confluenceTable'' then [1, 2]
        else if n = 1 \<and> sel = ''tr'' then [3]
        else if n = 3 \<and> sel = ''td, th'' then [4]
        else []),
      Html = (\<lambda>n. ''<b>x</b>''),
      html2text_FromString = (\<lambda>s. ConversionError ''conversion failed''),
      os_ReadFile = (\<lambda>h p. if p = CREDENTIALS_PATH then Inr ''{}'' else Inl ''no such file''),
      os_WriteFile = (\<lambda>h p s. Some ''read-only file system''),
      os_Open = (\<lambda>h p. Inr ''token''),
      os_OpenFile = (\<lambda>h p. None),
      DecodeToken = Inr,
      ConfigFromJSON = Inr,
      AuthCodeURL = (\<lambda>c. c),
      fmt_Scan = (\<lambda>h. Inl ''EOF''),
      config_Exchange = (\<lambda>h c a. Inl ''denied''),
      docs_NewService = (\<lambda>h c t. None),
      Documents_Get = (\<lambda>h d. Inr \<lparr>DocumentId = d, Body = Some \<lparr>Content = []\<rparr>\<rparr>),
      Documents_Create = (\<lambda>h t. Inr \<lparr>DocumentId = ''doc1'', Body = Some \<lparr>Content = []\<rparr>\<rparr>),
      Documents_BatchUpdate = (\<lambda>h d rs. None)\<rparr>"

text \<open>
  The same page, whose cells hold a table with a footer row shorter than its body row, on
  which the converter panics.
\<close>

definition footerCell :: string where
  "footerCell =
     ''<table><tr><td>a</td><td>b</td></tr><tfoot><tr><td>f</td></tr></tfoot></table>''"

definition footerEnv :: "(unit, nat) env" where
  "footerEnv =
     env0\<lparr>Html := \<lambda>n. footerCell,
          html2text_FromString := \<lambda>s.
            if s = footerCell then ConversionPanic ''index out of range [1] with length 1''
            else Text s\<rparr>"

definition oneSegment :: Document where
  "oneSegment = \<lparr>DocumentId = ''doc1'',
     Body = Some \<lparr>Content = [Some \<lparr>StartIndex = 0, EndIndex = 1, Table = None\<rparr>]\<rparr>\<rparr>"

definition twoSegments :: Document where
  "twoSegments = \<lparr>DocumentId = ''doc1'',
     Body = Some \<lparr>Content = [Some \<lparr>StartIndex = 0, EndIndex = 1, Table = None\<rparr>,
                              Some \<lparr>StartIndex = 1, EndIndex = 2, Table = None\<rparr>]\<rparr>\<rparr>"

text \<open>A table of two rows of two cells, and a document whose last table it is.\<close>

definition table2x2 :: Table where
  "table2x2 =
     \<lparr>TableRows =
        [Some \<lparr>TableCells = [Some \<lparr>cell_StartIndex = 4\<rparr>, Some \<lparr>cell_StartIndex = 6\<rparr>]\<rparr>,
         Some \<lparr>TableCells = [Some \<lparr>cell_StartIndex = 9\<rparr>, Some \<lparr>cell_StartIndex = 11\<rparr>]\<rparr>]\<rparr>"

definition cellDocument :: Document where
  "cellDocument = \<lparr>DocumentId = ''doc1'',
     Body = Some \<lparr>Content =
       [Some \<lparr>StartIndex = 0, EndIndex = 1, Table = None\<rparr>,
        Some \<lparr>StartIndex = 1, EndIndex = 7,
              Table = Some \<lparr>TableRows =
                [Some \<lparr>TableCells = [Some \<lparr>cell_StartIndex = 3\<rparr>]\<rparr>]\<rparr>\<rparr>,
        Some \<lparr>StartIndex = 7, EndIndex = 8, Table = None\<rparr>]\<rparr>\<rparr>"

definition tableDocument :: Document where
  "tableDocument = \<lparr>DocumentId = ''doc1'',
     Body = Some \<lparr>Content =
       [Some \<lparr>StartIndex = 0, EndIndex = 1, Table = None\<rparr>,
        Some \<lparr>StartIndex = 1, EndIndex = 2, Table = Some \<lparr>TableRows = []\<rparr>\<rparr>,
        Some \<lparr>StartIndex = 2, EndIndex = 14, Table = Some table2x2\<rparr>,
        Some \<lparr>StartIndex = 14, EndIndex = 15, Table = None\<rparr>]\<rparr>\<rparr>"

section \<open>Properties of the loops\<close>

lemma checkRows_None: "checkRows rs c i = None \<longleftrightarrow> (\<forall>r \<in> set rs. length (entries r) = c)"
  by (induction rs arbitrary: i) auto

lemma findLastTable_spec:
  assumes "\<forall>x \<in> set xs. x \<noteq> None"
  shows "\<exists>j. findLastTable xs i idx = Inr j \<and>
           (bodyTables xs = [] \<longrightarrow> j = idx) \<and>
           (bodyTables xs \<noteq> [] \<longrightarrow> i \<le> j \<and> nat (j - i) < length xs \<and>
              (\<exists>e. xs ! nat (j - i) = Some e \<and> Table e = Some (last (bodyTables xs))))"
  using assms
proof (induction xs arbitrary: i idx)
  case Nil
  then show ?case by simp
next
  case (Cons x xs)
  then obtain e where x: "x = Some e" by auto
  from Cons.prems have nn: "\<forall>x \<in> set xs. x \<noteq> None" by simp
  let ?idx = "if Table e \<noteq> None then i else idx"
  from Cons.IH [OF nn, of "i + 1" ?idx]
  obtain j where j: "findLastTable xs (i + 1) ?idx = Inr j"
    and j0: "bodyTables xs = [] \<longrightarrow> j = ?idx"
    and j1: "bodyTables xs \<noteq> [] \<longrightarrow> i + 1 \<le> j \<and> nat (j - (i + 1)) < length xs \<and>
              (\<exists>e. xs ! nat (j - (i + 1)) = Some e \<and> Table e = Some (last (bodyTables xs)))"
    by blast
  have r: "findLastTable (x # xs) i idx = Inr j" using x j by simp
  show ?case
  proof (cases "bodyTables xs = []")
    case True
    with j0 have "j = ?idx" by simp
    with r x True show ?thesis by (auto split: option.splits)
  next
    case False
    with j1 have a: "i + 1 \<le> j" and b: "nat (j - (i + 1)) < length xs"
      and c: "\<exists>e. xs ! nat (j - (i + 1)) = Some e \<and> Table e = Some (last (bodyTables xs))"
      by auto
    from a have n: "nat (j - i) = Suc (nat (j - (i + 1)))" by simp
    from False x have l: "last (bodyTables (x # xs)) = last (bodyTables xs)"
      by (simp split: option.splits)
    from False x have ne: "bodyTables (x # xs) \<noteq> []" by (simp split: option.splits)
    from r a b c n l ne show ?thesis by auto
  qed
qed

lemma insert_after_validation:
  assumes ne: "contents tbl \<noteq> []"
    and same: "\<forall>r \<in> set (contents tbl). length (entries r) = length (entries (contents tbl ! 0))"
    and create: "create = [InsertTable (of_nat (length (contents tbl)))
                             (of_nat (length (entries (contents tbl ! 0))))]"
    and upd: "Documents_BatchUpdate env w docId create = None"
    and w2: "w2 = w @ [DocsBatchUpdate docId create, DocsGet docId]"
    and get: "Documents_Get env (w @ [DocsBatchUpdate docId create]) docId = Inr doc"
    and body: "Body doc = Some body"
    and nonnil: "\<forall>x \<in> set (Content body). x \<noteq> None"
  shows "insertTableToDocument env docId tbl w =
          (if bodyTables (Content body) = [] then (Failed NoLastTable, w2)
           else
             case rowsLoop tbl (TableRows (last (bodyTables (Content body)))) 0 [] 0 of
               Inl h \<Rightarrow> (Halted h, w2)
             | Inr (requests, totalInserted) \<Rightarrow>
                 ((case Documents_BatchUpdate env w2 docId requests of
                     Some err \<Rightarrow> Failed (External err)
                   | None \<Rightarrow> Ok ()),
                  w2 @ [DocsBatchUpdate docId requests]))"
proof -
  from same have chk: "checkRows (contents tbl) (length (entries (contents tbl ! 0))) 0 = None"
    by (simp add: checkRows_None)
  from findLastTable_spec [OF nonnil, of 0 "- 1"]
  obtain j where j: "findLastTable (Content body) 0 (- 1) = Inr j"
    and j0: "bodyTables (Content body) = [] \<longrightarrow> j = - 1"
    and j1: "bodyTables (Content body) \<noteq> [] \<longrightarrow> 0 \<le> j \<and> nat (j - 0) < length (Content body) \<and>
              (\<exists>e. Content body ! nat (j - 0) = Some e \<and>
                   Table e = Some (last (bodyTables (Content body))))"
    by blast
  show ?thesis
  proof (cases "bodyTables (Content body) = []")
    case True
    with j0 have "j = - 1" by simp
    with True ne chk upd get body j show ?thesis
      unfolding insertTableToDocument_def w2 create by (simp add: Let_def)
  next
    case False
    with j1 obtain e where jn: "0 \<le> j" and e: "Content body ! nat j = Some e"
      and t: "Table e = Some (last (bodyTables (Content body)))"
      by auto
    from jn have "j \<noteq> - 1" by simp
    with False ne chk upd get body j e t show ?thesis
      unfolding insertTableToDocument_def w2 create
      by (simp add: Let_def split: sum.splits option.splits prod.splits)
  qed
qed

lemma cellsLoop_exact:
  assumes "rowIdx < length (contents tbl)"
    and "cellIdx + length cs \<le> length (entries (contents tbl ! rowIdx))"
  shows "cellsLoop tbl rowIdx (map Some cs) cellIdx requests totalInserted =
           Inr (requests @
                  offsetRequests (map cell_StartIndex cs)
                    (take (length cs) (drop cellIdx (entries (contents tbl ! rowIdx))))
                    totalInserted,
                totalInserted +
                  of_nat (sum_list (map RuneCountInString
                    (take (length cs) (drop cellIdx (entries (contents tbl ! rowIdx)))))))"
  using assms
proof (induction cs arbitrary: cellIdx requests totalInserted)
  case Nil
  then show ?case by simp
next
  case (Cons c cs)
  let ?es = "entries (contents tbl ! rowIdx)"
  from Cons.prems have lt: "cellIdx < length ?es" and le: "Suc cellIdx + length cs \<le> length ?es"
    by simp_all
  from lt have d: "drop cellIdx ?es = ?es ! cellIdx # drop (Suc cellIdx) ?es"
    by (simp add: Cons_nth_drop_Suc)
  from Cons.prems(1) lt
  have step: "cellsLoop tbl rowIdx (map Some (c # cs)) cellIdx requests totalInserted =
      cellsLoop tbl rowIdx (map Some cs) (Suc cellIdx)
        (requests @ [InsertText (?es ! cellIdx) (cell_StartIndex c + 1 + totalInserted)])
        (totalInserted + of_nat (RuneCountInString (?es ! cellIdx)))"
    by (simp add: Let_def)
  show ?case
    unfolding step Cons.IH [OF Cons.prems(1) le] d
    by (simp add: add.assoc)
qed

lemma offsetRequests_append:
  assumes "length ss = length ts"
  shows "offsetRequests (ss @ ss') (ts @ ts') totalInserted =
           offsetRequests ss ts totalInserted @
           offsetRequests ss' ts' (totalInserted + of_nat (sum_list (map RuneCountInString ts)))"
  using assms
  by (induction ss ts arbitrary: totalInserted rule: list_induct2) (simp_all add: add.assoc)

lemma offsetRequests_length:
  "length ss = length ts \<Longrightarrow> length (offsetRequests ss ts totalInserted) = length ts"
  by (induction ss ts arbitrary: totalInserted rule: list_induct2) simp_all

lemma offsetRequests_nth:
  assumes "length ss = length ts" and "k < length ts"
  shows "offsetRequests ss ts totalInserted ! k =
           InsertText (ts ! k)
             (ss ! k + 1 + totalInserted + of_nat (sum_list (map RuneCountInString (take k ts))))"
  using assms
proof (induction ss ts arbitrary: totalInserted k rule: list_induct2)
  case Nil
  then show ?case by simp
next
  case (Cons s ss t ts)
  show ?case
  proof (cases k)
    case 0
    then show ?thesis by simp
  next
    case (Suc m)
    with Cons.prems have "m < length ts" by simp
    from Cons.IH [OF this] Suc show ?thesis by (simp add: add.assoc)
  qed
qed

lemma rowsLoop_exact:
  assumes "map length cellss = map (\<lambda>r. length (entries r)) (drop rowIdx (contents tbl))"
  shows "rowsLoop tbl (map (\<lambda>cells. Some \<lparr>TableCells = map Some cells\<rparr>) cellss) rowIdx
             requests totalInserted =
           Inr (requests @
                  offsetRequests (map cell_StartIndex (concat cellss))
                    (concat (map entries (drop rowIdx (contents tbl)))) totalInserted,
                totalInserted +
                  of_nat (sum_list (map RuneCountInString
                    (concat (map entries (drop rowIdx (contents tbl)))))))"
  using assms
proof (induction cellss arbitrary: rowIdx requests totalInserted)
  case Nil
  then show ?case by simp
next
  case (Cons cs cellss)
  let ?rows = "contents tbl"
  from Cons.prems have ne: "drop rowIdx ?rows \<noteq> []" by auto
  then have lt: "rowIdx < length ?rows" by simp
  then have d: "drop rowIdx ?rows = ?rows ! rowIdx # drop (Suc rowIdx) ?rows"
    by (simp add: Cons_nth_drop_Suc)
  with Cons.prems have len: "length cs = length (entries (?rows ! rowIdx))"
    and rest: "map length cellss = map (\<lambda>r. length (entries r)) (drop (Suc rowIdx) ?rows)"
    by simp_all
  from len have le: "0 + length cs \<le> length (entries (?rows ! rowIdx))" by simp
  have lens: "length (map cell_StartIndex cs) = length (entries (?rows ! rowIdx))"
    using len by simp
  show ?case
    unfolding d
    by (simp add: cellsLoop_exact [OF lt le] len Cons.IH [OF rest]
          offsetRequests_append [OF lens] add.assoc)
qed

lemma checkRows_Some: "checkRows rs c i = Some e \<Longrightarrow> \<exists>n k. e = InvalidTable c n k"
  by (induction rs arbitrary: i) (auto split: if_splits)

section \<open>The document writer: inserting a table\<close>

text \<open>
  C1, as amended. Let a table pass the validation, the insert-table request succeed, and
  the document fetched afterwards have as its last table one with a row for each row of
  the table and a cell for each entry (\<open>cellss\<close>, none nil). Then the history grows by
  the insert-table request, the fetch and one batch of insert-text requests, one per
  entry in row-major order: the text \<open>k\<close> goes to the start of its cell, plus one, plus
  the number of runes of all the texts before it. So in the rows \<open>["ab","c"]\<close> and
  \<open>["d","e"]\<close> the text \<open>"d"\<close> goes to the start of its cell plus one plus 3, the runes of
  \<open>"ab"\<close> and \<open>"c"\<close>.
\<close>

theorem insert_text_offsets:
  assumes ne: "contents tbl \<noteq> []"
    and same: "\<forall>r \<in> set (contents tbl). length (entries r) = length (entries (contents tbl ! 0))"
    and create: "create = [InsertTable (of_nat (length (contents tbl)))
                             (of_nat (length (entries (contents tbl ! 0))))]"
    and upd: "Documents_BatchUpdate env w docId create = None"
    and w2: "w2 = w @ [DocsBatchUpdate docId create, DocsGet docId]"
    and get: "Documents_Get env (w @ [DocsBatchUpdate docId create]) docId = Inr doc"
    and body: "Body doc = Some body"
    and nonnil: "\<forall>x \<in> set (Content body). x \<noteq> None"
    and tables: "bodyTables (Content body) \<noteq> []"
    and shape: "TableRows (last (bodyTables (Content body))) =
                  map (\<lambda>cells. Some \<lparr>TableCells = map Some cells\<rparr>) cellss"
    and lens: "map length cellss = map (\<lambda>r. length (entries r)) (contents tbl)"
    and texts: "texts = concat (map entries (contents tbl))"
    and starts: "starts = map cell_StartIndex (concat cellss)"
  shows "\<exists>requests.
           snd (insertTableToDocument env docId tbl w) = w2 @ [DocsBatchUpdate docId requests] \<and>
           length requests = length texts \<and>
           (\<forall>k < length texts.
              requests ! k =
                InsertText (texts ! k)
                  (starts ! k + 1 +
                   of_nat (sum_list (map RuneCountInString (take k texts)))))"
proof -
  from lens have l0: "map length cellss = map (\<lambda>r. length (entries r)) (drop 0 (contents tbl))"
    by simp
  have loop: "rowsLoop tbl (TableRows (last (bodyTables (Content body)))) 0 [] 0 =
      Inr (offsetRequests starts texts 0,
           of_nat (sum_list (map RuneCountInString texts)))"
    unfolding shape rowsLoop_exact [OF l0] texts starts by simp
  have "sum_list (map length cellss) = sum_list (map (\<lambda>r. length (entries r)) (contents tbl))"
    using lens by simp
  then have len: "length starts = length texts"
    unfolding texts starts by (simp add: length_concat comp_def)
  have run: "snd (insertTableToDocument env docId tbl w) =
      w2 @ [DocsBatchUpdate docId (offsetRequests starts texts 0)]"
    unfolding insert_after_validation [OF ne same create upd w2 get body nonnil]
    using tables loop by simp
  show ?thesis
  proof (intro exI conjI allI impI)
    show "snd (insertTableToDocument env docId tbl w) =
            w2 @ [DocsBatchUpdate docId (offsetRequests starts texts 0)]"
      by (rule run)
    show "length (offsetRequests starts texts 0) = length texts"
      by (rule offsetRequests_length [OF len])
    fix k assume "k < length texts"
    from offsetRequests_nth [OF len this, of 0]
    show "offsetRequests starts texts 0 ! k =
            InsertText (texts ! k)
              (starts ! k + 1 + of_nat (sum_list (map RuneCountInString (take k texts))))"
      by simp
  qed
qed

theorem insert_text_offsets_witness:
  "\<exists>requests.
     snd (insertTableToDocument (env0\<lparr>Documents_Get := \<lambda>h d. Inr tableDocument\<rparr>) ''doc1''
            \<lparr>contents = [\<lparr>entries = [''ab'', ''c'']\<rparr>, \<lparr>entries = [''d'', ''e'']\<rparr>]\<rparr> []) =
       [DocsBatchUpdate ''doc1'' [InsertTable 2 2], DocsGet ''doc1'',
        DocsBatchUpdate ''doc1'' requests] \<and>
     length requests = 4 \<and>
     requests ! 2 = InsertText ''d'' (9 + 1 + 3)"
proof -
  let ?env = "env0\<lparr>Documents_Get := \<lambda>h d. Inr tableDocument\<rparr>"
  let ?tbl = "\<lparr>contents = [\<lparr>entries = [''ab'', ''c'']\<rparr>, \<lparr>entries = [''d'', ''e'']\<rparr>]\<rparr>"
  let ?cellss = "[[\<lparr>cell_StartIndex = 4\<rparr>, \<lparr>cell_StartIndex = 6\<rparr>],
                  [\<lparr>cell_StartIndex = 9\<rparr>, \<lparr>cell_StartIndex = 11\<rparr>]]"
  have h1: "contents ?tbl \<noteq> []" by simp
  have h2: "\<forall>r \<in> set (contents ?tbl). length (entries r) = length (entries (contents ?tbl ! 0))"
    by simp
  have h3: "[InsertTable 2 2] = [InsertTable (of_nat (length (contents ?tbl)))
                             (of_nat (length (entries (contents ?tbl ! 0))))]"
    by simp
  have h4: "Documents_BatchUpdate ?env [] ''doc1'' [InsertTable 2 2] = None"
    by (simp add: env0_def)
  have h5: "[DocsBatchUpdate ''doc1'' [InsertTable 2 2], DocsGet ''doc1''] =
      [] @ [DocsBatchUpdate ''doc1'' [InsertTable 2 2], DocsGet ''doc1'']"
    by simp
  have h6: "Documents_Get ?env ([] @ [DocsBatchUpdate ''doc1'' [InsertTable 2 2]]) ''doc1'' =
      Inr tableDocument"
    by (simp add: env0_def)
  have h7: "Body tableDocument = Some (the (Body tableDocument))"
    by (simp add: tableDocument_def)
  have h8: "\<forall>x \<in> set (Content (the (Body tableDocument))). x \<noteq> None"
    by (simp add: tableDocument_def)
  have h9: "bodyTables (Content (the (Body tableDocument))) \<noteq> []"
    by (simp add: tableDocument_def)
  have h10: "TableRows (last (bodyTables (Content (the (Body tableDocument))))) =
      map (\<lambda>cells. Some \<lparr>TableCells = map Some cells\<rparr>) ?cellss"
    by (simp add: tableDocument_def table2x2_def)
  have h11: "map length ?cellss = map (\<lambda>r. length (entries r)) (contents ?tbl)"
    by simp
  from insert_text_offsets [OF h1 h2 h3 h4 h5 h6 h7 h8 h9 h10 h11 refl refl]
  obtain requests where
    r1: "snd (insertTableToDocument ?env ''doc1'' ?tbl []) =
          [DocsBatchUpdate ''doc1'' [InsertTable 2 2], DocsGet ''doc1''] @
          [DocsBatchUpdate ''doc1'' requests]"
    and r2: "length requests = length (concat (map entries (contents ?tbl)))"
    and r3: "\<forall>k < length (concat (map entries (contents ?tbl))).
              requests ! k =
                InsertText (concat (map entries (contents ?tbl)) ! k)
                  (map cell_StartIndex (concat ?cellss) ! k + 1 +
                   of_nat (sum_list (map RuneCountInString
                     (take k (concat (map entries (contents ?tbl)))))))"
    by blast
  from r3 have "requests ! 2 = InsertText ''d'' (9 + 1 + 3)"
    by (simp add: runeWidth_def)
  with r1 r2 show ?thesis by simp
qed

text \<open>
  C1 as stated fails on its example: the rows \<open>["ab","c"]\<close> and \<open>["d"]\<close> are rejected by
  the validation and no request is made; and the loop over the cells, run on them, puts
  \<open>"d"\<close> at the start of its cell plus one plus 3, not plus 2.
\<close>

theorem insert_text_offsets_counterexample:
  "insertTableToDocument (env0\<lparr>Documents_Get := \<lambda>h d. Inr tableDocument\<rparr>) ''doc1''
      \<lparr>contents = [\<lparr>entries = [''ab'', ''c'']\<rparr>, \<lparr>entries = [''d'']\<rparr>]\<rparr> [] =
     (Failed (InvalidTable 2 1 2), []) \<and>
   rowsLoop \<lparr>contents = [\<lparr>entries = [''ab'', ''c'']\<rparr>, \<lparr>entries = [''d'']\<rparr>]\<rparr>
      [Some \<lparr>TableCells = [Some \<lparr>cell_StartIndex = 4\<rparr>, Some \<lparr>cell_StartIndex = 6\<rparr>]\<rparr>,
       Some \<lparr>TableCells = [Some \<lparr>cell_StartIndex = 9\<rparr>]\<rparr>] 0 [] 0 =
     Inr ([InsertText ''ab'' (4 + 1 + 0), InsertText ''c'' (6 + 1 + 2),
           InsertText ''d'' (9 + 1 + 3)], 4) \<and>
   (9 + 1 + 3 :: int64) \<noteq> 9 + 1 + 2 \<and> (9 + 1 + 3 :: int64) \<noteq> 9 + 2"
  by (simp add: insertTableToDocument_def runeWidth_def)

text \<open>
  C2. A table with no row, or with a row whose number of cells is not that of the first
  row, is rejected with a validation error, and the history is unchanged: no request
  was made.
\<close>

theorem insert_rejects_invalid_table:
  assumes "contents tbl = [] \<or>
           (\<exists>r \<in> set (contents tbl). length (entries r) \<noteq> length (entries (contents tbl ! 0)))"
  shows "\<exists>err. insertTableToDocument env docId tbl w = (Failed err, w) \<and>
           (err = EmptyTable \<or> (\<exists>c n k. err = InvalidTable c n k))"
proof (cases "contents tbl = []")
  case True
  then show ?thesis by (simp add: insertTableToDocument_def)
next
  case False
  with assms have "checkRows (contents tbl) (length (entries (contents tbl ! 0))) 0 \<noteq> None"
    by (simp add: checkRows_None)
  then obtain e where e: "checkRows (contents tbl) (length (entries (contents tbl ! 0))) 0 = Some e"
    by blast
  from checkRows_Some [OF e] False e show ?thesis
    by (auto simp: insertTableToDocument_def Let_def)
qed

theorem insert_rejects_invalid_table_witness:
  "insertTableToDocument env0 ''doc1''
      \<lparr>contents = [\<lparr>entries = [''ab'', ''c'']\<rparr>, \<lparr>entries = [''d'']\<rparr>]\<rparr> [] =
     (Failed (InvalidTable 2 1 2), [])
   \<and> insertTableToDocument env0 ''doc1'' \<lparr>contents = []\<rparr> [] = (Failed EmptyTable, [])"
  using insert_rejects_invalid_table
      [of "\<lparr>contents = [\<lparr>entries = [''ab'', ''c'']\<rparr>, \<lparr>entries = [''d'']\<rparr>]\<rparr>" env0 "''doc1''" "[]"]
    insert_rejects_invalid_table [of "\<lparr>contents = []\<rparr>" env0 "''doc1''" "[]"]
  by (simp add: insertTableToDocument_def)

text \<open>
  C8. After the validation and the insert-table request, the document is fetched again.
  If its body, whose elements are not nil, has no table, the operation returns an error;
  otherwise the insert-text requests are computed from the rows of the last table of the
  body.
\<close>

theorem insert_locates_last_table:
  assumes "contents tbl \<noteq> []"
    and "\<forall>r \<in> set (contents tbl). length (entries r) = length (entries (contents tbl ! 0))"
    and "create = [InsertTable (of_nat (length (contents tbl)))
                     (of_nat (length (entries (contents tbl ! 0))))]"
    and "Documents_BatchUpdate env w docId create = None"
    and "w2 = w @ [DocsBatchUpdate docId create, DocsGet docId]"
    and "Documents_Get env (w @ [DocsBatchUpdate docId create]) docId = Inr doc"
    and "Body doc = Some body"
    and "\<forall>x \<in> set (Content body). x \<noteq> None"
  shows "(bodyTables (Content body) = [] \<longrightarrow>
            insertTableToDocument env docId tbl w = (Failed NoLastTable, w2)) \<and>
         (bodyTables (Content body) \<noteq> [] \<longrightarrow>
            insertTableToDocument env docId tbl w =
              (case rowsLoop tbl (TableRows (last (bodyTables (Content body)))) 0 [] 0 of
                 Inl h \<Rightarrow> (Halted h, w2)
               | Inr (requests, totalInserted) \<Rightarrow>
                   ((case Documents_BatchUpdate env w2 docId requests of
                       Some err \<Rightarrow> Failed (External err)
                     | None \<Rightarrow> Ok ()),
                    w2 @ [DocsBatchUpdate docId requests])))"
  using insert_after_validation [OF assms] by simp

theorem insert_locates_last_table_witness:
  "insertTableToDocument env0 ''doc1''
       \<lparr>contents = [\<lparr>entries = [''A'', ''B'']\<rparr>, \<lparr>entries = [''C'', ''D'']\<rparr>]\<rparr> [] =
     (Failed NoLastTable, [DocsBatchUpdate ''doc1'' [InsertTable 2 2], DocsGet ''doc1'']) \<and>
   last (bodyTables (Content (the (Body tableDocument)))) = table2x2 \<and>
   insertTableToDocument (env0\<lparr>Documents_Get := \<lambda>h d. Inr tableDocument\<rparr>) ''doc1''
       \<lparr>contents = [\<lparr>entries = [''A'', ''B'']\<rparr>, \<lparr>entries = [''C'', ''D'']\<rparr>]\<rparr> [] =
     (Ok (), [DocsBatchUpdate ''doc1'' [InsertTable 2 2], DocsGet ''doc1'',
              DocsBatchUpdate ''doc1''
                [InsertText ''A'' 5, InsertText ''B'' 8, InsertText ''C'' 12,
                 InsertText ''D'' 15]])"
  using insert_locates_last_table
      [of "\<lparr>contents = [\<lparr>entries = [''A'', ''B'']\<rparr>, \<lparr>entries = [''C'', ''D'']\<rparr>]\<rparr>"
          "[InsertTable 2 2]" env0 "[]" "''doc1''"
          "[DocsBatchUpdate ''doc1'' [InsertTable 2 2], DocsGet ''doc1'']"
          "\<lparr>DocumentId = ''doc1'', Body = Some \<lparr>Content = []\<rparr>\<rparr>" "\<lparr>Content = []\<rparr>"]
    insert_locates_last_table
      [of "\<lparr>contents = [\<lparr>entries = [''A'', ''B'']\<rparr>, \<lparr>entries = [''C'', ''D'']\<rparr>]\<rparr>"
          "[InsertTable 2 2]"
          "env0\<lparr>Documents_Get := \<lambda>h d. Inr tableDocument\<rparr>" "[]" "''doc1''"
          "[DocsBatchUpdate ''doc1'' [InsertTable 2 2], DocsGet ''doc1'']"
          tableDocument "the (Body tableDocument)"]
  by (simp add: env0_def tableDocument_def table2x2_def runeWidth_def)

section \<open>The document writer: clearing the document\<close>

text \<open>
  C5. When the document is fetched and has a body: with no content segment,
  \<open>clearDocument\<close> succeeds and makes no request; otherwise, the first and the last
  segment not being nil, it makes exactly one batch of exactly one delete-range request,
  from the start of the first segment plus one to the end of the last segment minus one.
\<close>

theorem clearDocument_requests:
  assumes "Documents_Get env w docId = Inr doc" and "Body doc = Some body"
  shows "(Content body = [] \<longrightarrow> clearDocument env docId w = (Ok (), w @ [DocsGet docId])) \<and>
         (\<forall>first lst requests.
            Content body \<noteq> [] \<and> hd (Content body) = Some first \<and>
            last (Content body) = Some lst \<and>
            requests = [DeleteContentRange (StartIndex first + 1) (EndIndex lst - 1)] \<longrightarrow>
            clearDocument env docId w =
              (case Documents_BatchUpdate env (w @ [DocsGet docId]) docId requests of
                 Some err \<Rightarrow> Failed (External err)
               | None \<Rightarrow> Ok (),
               w @ [DocsGet docId, DocsBatchUpdate docId requests]))"
proof (intro conjI allI impI)
  assume "Content body = []"
  with assms show "clearDocument env docId w = (Ok (), w @ [DocsGet docId])"
    by (simp add: clearDocument_def)
next
  fix first lst requests
  assume a: "Content body \<noteq> [] \<and> hd (Content body) = Some first \<and>
             last (Content body) = Some lst \<and>
             requests = [DeleteContentRange (StartIndex first + 1) (EndIndex lst - 1)]"
  then have "Content body ! 0 = Some first"
    and "Content body ! (length (Content body) - 1) = Some lst"
    by (auto simp: hd_conv_nth last_conv_nth)
  with a assms
  show "clearDocument env docId w =
          (case Documents_BatchUpdate env (w @ [DocsGet docId]) docId requests of
             Some err \<Rightarrow> Failed (External err)
           | None \<Rightarrow> Ok (),
           w @ [DocsGet docId, DocsBatchUpdate docId requests])"
    by (simp add: clearDocument_def Let_def split: option.splits)
qed

theorem clearDocument_requests_witness:
  "clearDocument env0 ''doc1'' [] = (Ok (), [DocsGet ''doc1'']) \<and>
   clearDocument (env0\<lparr>Documents_Get := \<lambda>h d. Inr twoSegments\<rparr>) ''doc1'' [] =
     (Ok (), [DocsGet ''doc1'', DocsBatchUpdate ''doc1'' [DeleteContentRange 1 1]])"
  using clearDocument_requests [of env0 "[]" "''doc1''"
      "\<lparr>DocumentId = ''doc1'', Body = Some \<lparr>Content = []\<rparr>\<rparr>" "\<lparr>Content = []\<rparr>"]
    clearDocument_requests [of "env0\<lparr>Documents_Get := \<lambda>h d. Inr twoSegments\<rparr>" "[]" "''doc1''"
      twoSegments "the (Body twoSegments)"]
  by (simp add: env0_def twoSegments_def)

text \<open>
  C3, as amended. On a body of exactly one content segment \<open>clearDocument\<close> makes one
  delete-range request, from the start of the segment plus one to its end minus one,
  whether or not the start plus one exceeds the end minus one: the code compares nothing
  but the number of segments with zero.
\<close>

theorem clearDocument_one_segment:
  assumes "Documents_Get env w docId = Inr doc" and "Body doc = Some body"
    and "Content body = [Some seg]"
  shows "snd (clearDocument env docId w) =
           w @ [DocsGet docId,
                DocsBatchUpdate docId
                  [DeleteContentRange (StartIndex seg + 1) (EndIndex seg - 1)]]"
  using assms by (simp add: clearDocument_def Let_def split: option.splits)

theorem clearDocument_one_segment_witness:
  "snd (clearDocument (env0\<lparr>Documents_Get := \<lambda>h d. Inr oneSegment\<rparr>) ''doc1'' [ReadFile ''f'']) =
     [ReadFile ''f'', DocsGet ''doc1'', DocsBatchUpdate ''doc1'' [DeleteContentRange 1 0]]"
  using clearDocument_one_segment
      [of "env0\<lparr>Documents_Get := \<lambda>h d. Inr oneSegment\<rparr>" "[ReadFile ''f'']" "''doc1''"
          oneSegment "the (Body oneSegment)" "\<lparr>StartIndex = 0, EndIndex = 1, Table = None\<rparr>"]
  by (simp add: env0_def oneSegment_def)

text \<open>
  C3 as stated fails: the body of \<open>oneSegment\<close> has exactly one segment, from 0 to 1, so
  the start plus one exceeds the end minus one, and a delete-range request is made.
\<close>

theorem clearDocument_one_segment_counterexample:
  "length (Content (the (Body oneSegment))) = 1 \<and>
   sint (0 + 1 :: int64) > sint (1 - 1 :: int64) \<and>
   snd (clearDocument (env0\<lparr>Documents_Get := \<lambda>h d. Inr oneSegment\<rparr>) ''doc1'' []) =
     [DocsGet ''doc1'', DocsBatchUpdate ''doc1'' [DeleteContentRange (0 + 1) (1 - 1)]]"
  by (simp add: clearDocument_def env0_def oneSegment_def)

section \<open>Creating the document\<close>

text \<open>
  C10. When the file of the document identifier cannot be read and the document is
  created, \<open>getDocument\<close> returns the created document also when writing the identifier
  to the file fails.
\<close>

theorem getDocument_ignores_write_error:
  assumes "os_ReadFile env w DOCUMENT_ID_PATH = Inl readErr"
    and "Documents_Create env (w @ [ReadFile DOCUMENT_ID_PATH]) ''HFLabsTestTaskTableDocument'' =
           Inr doc"
    and "os_WriteFile env
           (w @ [ReadFile DOCUMENT_ID_PATH, DocsCreate ''HFLabsTestTaskTableDocument''])
           DOCUMENT_ID_PATH (DocumentId doc) = Some writeErr"
  shows "getDocument env w =
           (Ok doc, w @ [ReadFile DOCUMENT_ID_PATH, DocsCreate ''HFLabsTestTaskTableDocument'',
                         WriteFile DOCUMENT_ID_PATH (DocumentId doc)])"
  using assms by (simp add: getDocument_def Let_def)

theorem getDocument_ignores_write_error_witness:
  "os_WriteFile env0 [ReadFile DOCUMENT_ID_PATH, DocsCreate ''HFLabsTestTaskTableDocument'']
      DOCUMENT_ID_PATH ''doc1'' = Some ''read-only file system'' \<and>
   getDocument env0 [] =
     (Ok \<lparr>DocumentId = ''doc1'', Body = Some \<lparr>Content = []\<rparr>\<rparr>,
      [ReadFile DOCUMENT_ID_PATH, DocsCreate ''HFLabsTestTaskTableDocument'',
       WriteFile DOCUMENT_ID_PATH ''doc1''])"
  using getDocument_ignores_write_error [of env0 "[]" "''no such file''"
      "\<lparr>DocumentId = ''doc1'', Body = Some \<lparr>Content = []\<rparr>\<rparr>" "''read-only file system''"]
  by (simp add: env0_def DOCUMENT_ID_PATH_def CREDENTIALS_PATH_def)

section \<open>Failures of the table scraper\<close>

text \<open>
  C7. When the page is fetched with status 200 and parsed, and no element of it matches
  \<open>.confluenceTable\<close>, \<open>getTables\<close> returns the empty list of tables and no error.
\<close>

theorem getTables_no_tables:
  assumes "http_Get env w CONFLUENCE_URL = Inr response" and "StatusCode response = 200"
    and "NewDocumentFromReader env (RespBody response) = Inr document"
    and "Find env document ''.confluenceTable'' = []"
  shows "getTables env w = (Ok [], w @ [HttpGet CONFLUENCE_URL])"
  using assms by (simp add: getTables_def Let_def)

theorem getTables_no_tables_witness:
  "getTables (env0\<lparr>Find := \<lambda>n sel. []\<rparr>) [] = (Ok [], [HttpGet CONFLUENCE_URL])"
  using getTables_no_tables [of "env0\<lparr>Find := \<lambda>n sel. []\<rparr>" "[]"
      "\<lparr>StatusCode = 200, Status = ''200 OK'', RespBody = ()\<rparr>" 0]
  by (simp add: env0_def)

text \<open>
  C4, as amended. \<open>getTables\<close> fails exactly when the transport fails, or the status of
  the response is not 200, or the body cannot be parsed; so for every response of status
  200 with a body that parses, it does not fail.
\<close>

theorem getTables_fails_iff:
  "(\<exists>err. fst (getTables env w) = Failed err) \<longleftrightarrow>
     (case http_Get env w CONFLUENCE_URL of
        Inl transportErr \<Rightarrow> True
      | Inr response \<Rightarrow>
          StatusCode response \<noteq> 200 \<or>
          (\<exists>parseErr. NewDocumentFromReader env (RespBody response) = Inl parseErr))"
  by (auto simp: getTables_def Let_def split: sum.splits)

theorem getTables_fails_iff_witness:
  "(\<exists>err. fst (getTables (env0\<lparr>http_Get := \<lambda>h url. Inl ''timeout''\<rparr>) []) = Failed err) \<and>
   \<not> (\<exists>err. fst (getTables env0 []) = Failed err)"
  using getTables_fails_iff [of "env0\<lparr>http_Get := \<lambda>h url. Inl ''timeout''\<rparr>" "[]"]
    getTables_fails_iff [of env0 "[]"]
  by (simp add: env0_def)

text \<open>
  C4 as stated fails: a response of status 204, a success status, with a body that
  parses, makes \<open>getTables\<close> fail because of the status code.
\<close>

theorem getTables_status_counterexample:
  "NewDocumentFromReader env0 () = Inr 0 \<and>
   getTables
     (env0\<lparr>http_Get := \<lambda>h url.
        Inr \<lparr>StatusCode = 204, Status = ''204 No Content'', RespBody = ()\<rparr>\<rparr>) [] =
     (Failed (NonOkayStatus 204 ''204 No Content''), [HttpGet CONFLUENCE_URL])"
  by (simp add: getTables_def env0_def)

text \<open>
  The scraping loops: without a panic of the converter they collect the text of every
  cell, and with one they end in it.
\<close>

lemma stripHtmlTags_cellText:
  "\<not> panics env c \<Longrightarrow> stripHtmlTags env (Html env c) = Inr (cellText env c)"
  by (simp add: panics_def stripHtmlTags_def cellText_def split: conversion.splits)

lemma stripHtmlTags_panics:
  "panics env c \<Longrightarrow> \<exists>p. stripHtmlTags env (Html env c) = Inl (Panic (LibraryPanic p))"
  by (simp add: panics_def stripHtmlTags_def split: conversion.splits)

lemma scrapeCells_texts:
  assumes "\<forall>c \<in> set cells. \<not> panics env c"
  shows "scrapeCells env cells row =
           Inr (row\<lparr>entries := entries row @ map (cellText env) cells\<rparr>)"
  using assms
  by (induction cells arbitrary: row) (simp_all add: stripHtmlTags_cellText)

lemma scrapeCells_panics:
  assumes "\<exists>c \<in> set cells. panics env c"
  shows "\<exists>p. scrapeCells env cells row = Inl (Panic (LibraryPanic p))"
  using assms
proof (induction cells arbitrary: row)
  case Nil
  then show ?case by simp
next
  case (Cons c cells)
  show ?case
  proof (cases "panics env c")
    case True
    from stripHtmlTags_panics [OF this] show ?thesis by auto
  next
    case False
    with Cons.prems have "\<exists>c \<in> set cells. panics env c" by simp
    from Cons.IH [OF this] stripHtmlTags_cellText [OF False] show ?thesis by simp
  qed
qed

lemma scrapeRows_texts:
  assumes "\<forall>r \<in> set rows. \<forall>c \<in> set (Find env r ''td, th''). \<not> panics env c"
  shows "scrapeRows env rows tbl =
           Inr (tbl\<lparr>contents := contents tbl @
                  map (\<lambda>r. \<lparr>entries = map (cellText env) (Find env r ''td, th'')\<rparr>) rows\<rparr>)"
  using assms
  by (induction rows arbitrary: tbl) (simp_all add: scrapeCells_texts)

lemma scrapeRows_panics:
  assumes "\<exists>r \<in> set rows. \<exists>c \<in> set (Find env r ''td, th''). panics env c"
  shows "\<exists>p. scrapeRows env rows tbl = Inl (Panic (LibraryPanic p))"
  using assms
proof (induction rows arbitrary: tbl)
  case Nil
  then show ?case by simp
next
  case (Cons r rows)
  show ?case
  proof (cases "\<exists>c \<in> set (Find env r ''td, th''). panics env c")
    case True
    from scrapeCells_panics [OF this, of "\<lparr>entries = []\<rparr>"] show ?thesis by auto
  next
    case False
    then have ok: "\<forall>c \<in> set (Find env r ''td, th''). \<not> panics env c" by simp
    from False Cons.prems
    have "\<exists>r \<in> set rows. \<exists>c \<in> set (Find env r ''td, th''). panics env c" by simp
    from Cons.IH [OF this] show ?thesis by (simp add: scrapeCells_texts [OF ok])
  qed
qed

lemma scrapeTables_texts:
  assumes "\<forall>t \<in> set tbls. \<forall>r \<in> set (Find env t ''tr'').
             \<forall>c \<in> set (Find env r ''td, th''). \<not> panics env c"
  shows "scrapeTables env tbls tables =
           Inr (tables @
                map (\<lambda>t. \<lparr>contents =
                       map (\<lambda>r. \<lparr>entries = map (cellText env) (Find env r ''td, th'')\<rparr>)
                         (Find env t ''tr'')\<rparr>) tbls)"
  using assms
  by (induction tbls arbitrary: tables) (simp_all add: scrapeRows_texts)

lemma scrapeTables_panics:
  assumes "\<exists>t \<in> set tbls. \<exists>r \<in> set (Find env t ''tr'').
             \<exists>c \<in> set (Find env r ''td, th''). panics env c"
  shows "\<exists>p. scrapeTables env tbls tables = Inl (Panic (LibraryPanic p))"
  using assms
proof (induction tbls arbitrary: tables)
  case Nil
  then show ?case by simp
next
  case (Cons t tbls)
  show ?case
  proof (cases "\<exists>r \<in> set (Find env t ''tr''). \<exists>c \<in> set (Find env r ''td, th''). panics env c")
    case True
    from scrapeRows_panics [OF this, of "\<lparr>contents = []\<rparr>"] show ?thesis by auto
  next
    case False
    then have ok: "\<forall>r \<in> set (Find env t ''tr''). \<forall>c \<in> set (Find env r ''td, th''). \<not> panics env c"
      by simp
    from False Cons.prems
    have "\<exists>t \<in> set tbls. \<exists>r \<in> set (Find env t ''tr'').
            \<exists>c \<in> set (Find env r ''td, th''). panics env c" by simp
    from Cons.IH [OF this] show ?thesis by (simp add: scrapeRows_texts [OF ok])
  qed
qed

text \<open>
  C9, as amended. When the conversion returns an error, \<open>stripHtmlTags\<close> returns its
  input. Whether \<open>getTables\<close> returns an error, and which, does not depend on the
  converter. On a page fetched with status 200 and parsed: if the converter panics on no
  cell, \<open>getTables\<close> returns the tables, each cell the converted text or, where the
  conversion returned an error, the inner HTML of the cell; if it panics on some cell,
  the panic goes through \<open>stripHtmlTags\<close> and the process ends in \<open>getTables\<close>.
\<close>

theorem getTables_conversion_outcomes:
  "(html2text_FromString env s = ConversionError err \<longrightarrow> stripHtmlTags env s = Inr s) \<and>
   (\<forall>e. fst (getTables (env\<lparr>html2text_FromString := convert\<rparr>) w) = Failed e \<longleftrightarrow>
        fst (getTables env w) = Failed e) \<and>
   (\<forall>response document.
      http_Get env w CONFLUENCE_URL = Inr response \<and> StatusCode response = 200 \<and>
      NewDocumentFromReader env (RespBody response) = Inr document \<longrightarrow>
      ((\<forall>c \<in> set (pageCells env document). \<not> panics env c) \<longrightarrow>
         getTables env w =
           (Ok (map (\<lambda>t. \<lparr>contents =
                      map (\<lambda>r. \<lparr>entries = map (cellText env) (Find env r ''td, th'')\<rparr>)
                        (Find env t ''tr'')\<rparr>)
                  (Find env document ''.confluenceTable'')),
            w @ [HttpGet CONFLUENCE_URL])) \<and>
      ((\<exists>c \<in> set (pageCells env document). panics env c) \<longrightarrow>
         (\<exists>p. getTables env w = (Halted (Panic (LibraryPanic p)), w @ [HttpGet CONFLUENCE_URL]))))"
proof (intro conjI allI impI)
  assume "html2text_FromString env s = ConversionError err"
  then show "stripHtmlTags env s = Inr s" by (simp add: stripHtmlTags_def)
next
  fix e
  show "fst (getTables (env\<lparr>html2text_FromString := convert\<rparr>) w) = Failed e \<longleftrightarrow>
        fst (getTables env w) = Failed e"
    by (auto simp: getTables_def Let_def split: sum.splits)
next
  fix response document
  assume f: "http_Get env w CONFLUENCE_URL = Inr response \<and> StatusCode response = 200 \<and>
      NewDocumentFromReader env (RespBody response) = Inr document"
    and "\<forall>c \<in> set (pageCells env document). \<not> panics env c"
  then have "\<forall>t \<in> set (Find env document ''.confluenceTable''). \<forall>r \<in> set (Find env t ''tr'').
             \<forall>c \<in> set (Find env r ''td, th''). \<not> panics env c"
    by (auto simp: pageCells_def)
  from scrapeTables_texts [OF this, of "[]"] f
  show "getTables env w =
           (Ok (map (\<lambda>t. \<lparr>contents =
                      map (\<lambda>r. \<lparr>entries = map (cellText env) (Find env r ''td, th'')\<rparr>)
                        (Find env t ''tr'')\<rparr>)
                  (Find env document ''.confluenceTable'')),
            w @ [HttpGet CONFLUENCE_URL])"
    by (simp add: getTables_def)
next
  fix response document
  assume f: "http_Get env w CONFLUENCE_URL = Inr response \<and> StatusCode response = 200 \<and>
      NewDocumentFromReader env (RespBody response) = Inr document"
    and "\<exists>c \<in> set (pageCells env document). panics env c"
  then have "\<exists>t \<in> set (Find env document ''.confluenceTable''). \<exists>r \<in> set (Find env t ''tr'').
             \<exists>c \<in> set (Find env r ''td, th''). panics env c"
    by (auto simp: pageCells_def)
  from scrapeTables_panics [OF this, of "[]"] f
  show "\<exists>p. getTables env w = (Halted (Panic (LibraryPanic p)), w @ [HttpGet CONFLUENCE_URL])"
    by (auto simp: getTables_def)
qed

theorem getTables_conversion_outcomes_witness:
  "html2text_FromString env0 ''<b>x</b>'' = ConversionError ''conversion failed'' \<and>
   stripHtmlTags env0 ''<b>x</b>'' = Inr ''<b>x</b>'' \<and>
   pageCells env0 0 = [4] \<and> \<not> panics env0 4 \<and>
   getTables env0 [] =
     (Ok [\<lparr>contents = [\<lparr>entries = [''<b>x</b>'']\<rparr>]\<rparr>, \<lparr>contents = []\<rparr>], [HttpGet CONFLUENCE_URL]) \<and>
   panics footerEnv 4 \<and>
   (\<exists>p. getTables footerEnv [] = (Halted (Panic (LibraryPanic p)), [HttpGet CONFLUENCE_URL]))"
  using getTables_conversion_outcomes
      [of env0 "''<b>x</b>''" "''conversion failed''" "\<lambda>s. Text s" "[]"]
    getTables_conversion_outcomes
      [of footerEnv "''<b>x</b>''" "''conversion failed''" "\<lambda>s. Text s" "[]"]
  by (simp add: footerEnv_def footerCell_def env0_def pageCells_def panics_def cellText_def)

text \<open>
  C9 as stated fails: on the inner HTML \<open>footerCell\<close> the converter of \<open>footerEnv\<close> panics,
  \<open>stripHtmlTags\<close> returns no string, and the scrape of the page ends the process.
\<close>

theorem stripHtmlTags_panic_counterexample:
  "stripHtmlTags footerEnv footerCell =
     Inl (Panic (LibraryPanic ''index out of range [1] with length 1'')) \<and>
   getTables footerEnv [] =
     (Halted (Panic (LibraryPanic ''index out of range [1] with length 1'')),
      [HttpGet CONFLUENCE_URL])"
  by (simp add: stripHtmlTags_def getTables_def footerEnv_def env0_def)

section \<open>Error handling of the driver\<close>

text \<open>
  The loops build insert-text requests only, and end the process only by a panic.
\<close>

lemma cellsLoop_requests:
  "cellsLoop tbl rowIdx cells cellIdx requests totalInserted = Inr (requests', totalInserted') \<Longrightarrow>
   \<exists>new. requests' = requests @ new \<and> (\<forall>r \<in> set new. \<exists>t k. r = InsertText t k)"
proof (induction cells arbitrary: cellIdx requests totalInserted)
  case Nil
  then show ?case by simp
next
  case (Cons c cells)
  show ?case
  proof (cases c)
    case None
    with Cons.prems Cons.IH show ?thesis by simp
  next
    case (Some cell)
    let ?text = "entries (contents tbl ! rowIdx) ! cellIdx"
    from Cons.prems Some
    have "cellsLoop tbl rowIdx cells (Suc cellIdx)
            (requests @ [InsertText ?text (cell_StartIndex cell + 1 + totalInserted)])
            (totalInserted + of_nat (RuneCountInString ?text)) = Inr (requests', totalInserted')"
      by (simp add: Let_def split: if_splits)
    from Cons.IH [OF this] show ?thesis by auto
  qed
qed

lemma cellsLoop_halt:
  "cellsLoop tbl rowIdx cells cellIdx requests totalInserted = Inl h \<Longrightarrow> \<exists>p. h = Panic p"
proof (induction cells arbitrary: cellIdx requests totalInserted)
  case Nil
  then show ?case by simp
next
  case (Cons c cells)
  then show ?case by (cases c) (auto simp: Let_def split: if_splits)
qed

lemma rowsLoop_requests:
  "rowsLoop tbl rows rowIdx requests totalInserted = Inr (requests', totalInserted') \<Longrightarrow>
   \<exists>new. requests' = requests @ new \<and> (\<forall>r \<in> set new. \<exists>t k. r = InsertText t k)"
proof (induction rows arbitrary: rowIdx requests totalInserted)
  case Nil
  then show ?case by simp
next
  case (Cons r rows)
  show ?case
  proof (cases r)
    case None
    with Cons.prems Cons.IH show ?thesis by simp
  next
    case (Some row)
    with Cons.prems obtain reqs1 tot1 where
      c: "cellsLoop tbl rowIdx (TableCells row) 0 requests totalInserted = Inr (reqs1, tot1)"
      and l: "rowsLoop tbl rows (Suc rowIdx) reqs1 tot1 = Inr (requests', totalInserted')"
      by (auto split: sum.splits)
    from cellsLoop_requests [OF c] Cons.IH [OF l] show ?thesis by auto
  qed
qed

lemma rowsLoop_halt:
  "rowsLoop tbl rows rowIdx requests totalInserted = Inl h \<Longrightarrow> \<exists>p. h = Panic p"
proof (induction rows arbitrary: rowIdx requests totalInserted)
  case Nil
  then show ?case by simp
next
  case (Cons r rows)
  then show ?case by (cases r) (auto split: sum.splits dest: cellsLoop_halt)
qed

lemma findLastTable_halt:
  "findLastTable xs i idx = Inl h \<Longrightarrow> \<exists>p. h = Panic p"
proof (induction xs arbitrary: i idx)
  case Nil
  then show ?case by simp
next
  case (Cons x xs)
  then show ?case by (cases x) auto
qed

lemma not_attempt_texts:
  assumes "\<forall>r \<in> set requests. \<exists>t k. r = InsertText t k"
  shows "\<not> isAttempt (DocsBatchUpdate docId requests)"
proof (cases requests)
  case Nil
  then show ?thesis by simp
next
  case (Cons r rs)
  with assms obtain t k where "r = InsertText t k" by auto
  with Cons show ?thesis by simp
qed

lemma attemptOf_valid:
  assumes "contents tbl \<noteq> []"
    and "checkRows (contents tbl) (length (entries (contents tbl ! 0))) 0 = None"
  shows "attemptOf docId tbl =
           DocsBatchUpdate docId
             [InsertTable (of_nat (length (contents tbl)))
                (of_nat (length (entries (contents tbl ! 0))))]"
  using assms by (simp add: attemptOf_def)

lemma insertTableToDocument_attempt:
  assumes "insertTableToDocument env docId tbl w = (r, w')"
  shows "\<exists>ext. w' = w @ ext \<and>
           (case r of
              Ok u \<Rightarrow> filter isAttempt ext = [attemptOf docId tbl]
            | Failed err \<Rightarrow> filter isAttempt (ext @ [Print (ErrorMsg err)]) = [attemptOf docId tbl]
            | Halted h \<Rightarrow> \<exists>p. h = Panic p)"
proof (cases "contents tbl = []")
  case True
  with assms show ?thesis by (auto simp: insertTableToDocument_def attemptOf_def)
next
  case ne: False
  show ?thesis
  proof (cases "checkRows (contents tbl) (length (entries (contents tbl ! 0))) 0")
    case (Some err)
    from checkRows_Some [OF Some] obtain n k where
      "err = InvalidTable (length (entries (contents tbl ! 0))) n k" by blast
    with assms ne Some show ?thesis
      by (auto simp: insertTableToDocument_def attemptOf_def Let_def)
  next
    case None
    let ?create = "[InsertTable (of_nat (length (contents tbl)))
                      (of_nat (length (entries (contents tbl ! 0))))]"
    let ?w1 = "w @ [DocsBatchUpdate docId ?create]"
    let ?w2 = "?w1 @ [DocsGet docId]"
    note at = attemptOf_valid [OF ne None, of docId]
    have texts: "\<And>t reqs tot. rowsLoop tbl (TableRows t) 0 [] 0 = Inr (reqs, tot) \<Longrightarrow>
        \<not> isAttempt (DocsBatchUpdate docId reqs)"
    proof -
      fix t reqs tot
      assume "rowsLoop tbl (TableRows t) 0 [] 0 = Inr (reqs, tot)"
      from rowsLoop_requests [OF this]
      have "\<forall>r \<in> set reqs. \<exists>t k. r = InsertText t k" by auto
      then show "\<not> isAttempt (DocsBatchUpdate docId reqs)"
        by (rule not_attempt_texts)
    qed
    from assms ne None show ?thesis
      unfolding insertTableToDocument_def at
      by (auto simp: Let_def texts split: option.splits sum.splits if_splits prod.splits
               dest: findLastTable_halt rowsLoop_halt)
  qed
qed

lemma insertTables_attempts:
  assumes "insertTables env docId tbls w = (r, w')" and "\<forall>p. r \<noteq> Halted (Panic p)"
  shows "r = Ok () \<and> (\<exists>ext. w' = w @ ext \<and> filter isAttempt ext = map (attemptOf docId) tbls)"
  using assms
proof (induction tbls arbitrary: w)
  case Nil
  then show ?case by simp
next
  case (Cons tbl tbls)
  obtain r1 w1 where one: "insertTableToDocument env docId tbl w = (r1, w1)"
    by (cases "insertTableToDocument env docId tbl w")
  from insertTableToDocument_attempt [OF one] obtain ext1 where
    w1: "w1 = w @ ext1"
    and a: "case r1 of
              Ok u \<Rightarrow> filter isAttempt ext1 = [attemptOf docId tbl]
            | Failed err \<Rightarrow> filter isAttempt (ext1 @ [Print (ErrorMsg err)]) = [attemptOf docId tbl]
            | Halted h \<Rightarrow> \<exists>p. h = Panic p"
    by blast
  show ?case
  proof (cases r1)
    case (Ok u)
    with one Cons.prems have "insertTables env docId tbls w1 = (r, w')" by simp
    from Cons.IH [OF this Cons.prems(2)] obtain ext2 where
      "r = Ok ()" and "w' = w1 @ ext2" and "filter isAttempt ext2 = map (attemptOf docId) tbls"
      by blast
    with w1 a Ok show ?thesis by simp
  next
    case (Failed err)
    define ext where "ext = ext1 @ [Print (ErrorMsg err)]"
    from a Failed have fa: "filter isAttempt ext = [attemptOf docId tbl]"
      by (simp only: ext_def result.case)
    from one Failed Cons.prems
    have "insertTables env docId tbls (w1 @ [Print (ErrorMsg err)]) = (r, w')" by simp
    from Cons.IH [OF this Cons.prems(2)] obtain ext2 where
      "r = Ok ()" and "w' = (w1 @ [Print (ErrorMsg err)]) @ ext2"
      and "filter isAttempt ext2 = map (attemptOf docId) tbls"
      by blast
    with w1 have "r = Ok ()" and "w' = w @ (ext @ ext2)"
      and "filter isAttempt (ext @ ext2) = map (attemptOf docId) (tbl # tbls)"
      by (simp_all add: ext_def [symmetric] fa)
    then show ?thesis by blast
  next
    case (Halted h)
    with a obtain p where "h = Panic p" by auto
    with one Halted Cons.prems(1) have "r = Halted (Panic p)" by simp
    with Cons.prems(2) show ?thesis by blast
  qed
qed

lemma clearDocument_history:
  assumes "clearDocument env docId w = (r, w')"
  shows "\<exists>ext. w' = w @ ext \<and> filter isAttempt ext = [] \<and>
           (\<forall>err. r = Failed err \<longrightarrow> \<not> isAttempt (Print (ErrorMsg err))) \<and>
           (\<forall>h. r = Halted h \<longrightarrow> (\<exists>p. h = Panic p))"
  using assms
  by (auto simp: clearDocument_def Let_def split: sum.splits option.splits if_splits)

lemma getService_halt:
  "fst (getService env w) = Halted h \<Longrightarrow> \<exists>d. h = Fatal d"
  by (auto simp: getService_def getClient_def getTokenFromWeb_def saveToken_def
        tokenFromFile_def Let_def
      split: sum.splits option.splits prod.splits result.splits)

lemma afterInsertions_Cons:
  "afterInsertions env docId (tbl # tbls) w =
     afterInsertions env docId tbls (afterInsertion env docId w tbl)"
  by (simp add: afterInsertions_def)

lemma insertTables_fold:
  assumes "\<forall>i < length tbls. \<forall>h.
             fst (insertTableToDocument env docId (tbls ! i)
                    (afterInsertions env docId (take i tbls) w)) \<noteq> Halted h"
  shows "insertTables env docId tbls w = (Ok (), afterInsertions env docId tbls w)"
  using assms
proof (induction tbls arbitrary: w)
  case Nil
  then show ?case by (simp add: afterInsertions_def)
next
  case (Cons tbl tbls)
  obtain r1 w1 where one: "insertTableToDocument env docId tbl w = (r1, w1)"
    by (cases "insertTableToDocument env docId tbl w")
  from Cons.prems have "\<forall>h. fst (insertTableToDocument env docId ((tbl # tbls) ! 0)
      (afterInsertions env docId (take 0 (tbl # tbls)) w)) \<noteq> Halted h"
    by blast
  with one have nh: "\<forall>h. r1 \<noteq> Halted h" by (simp add: afterInsertions_def)
  let ?w = "afterInsertion env docId w tbl"
  have rest: "\<forall>i < length tbls. \<forall>h.
      fst (insertTableToDocument env docId (tbls ! i)
             (afterInsertions env docId (take i tbls) ?w)) \<noteq> Halted h"
  proof (intro allI impI)
    fix i h assume "i < length tbls"
    then have "Suc i < length (tbl # tbls)" by simp
    with Cons.prems have "fst (insertTableToDocument env docId ((tbl # tbls) ! Suc i)
        (afterInsertions env docId (take (Suc i) (tbl # tbls)) w)) \<noteq> Halted h"
      by blast
    then show "fst (insertTableToDocument env docId (tbls ! i)
        (afterInsertions env docId (take i tbls) ?w)) \<noteq> Halted h"
      by (simp add: afterInsertions_Cons)
  qed
  from Cons.IH [OF rest] one nh show ?case
    by (cases r1) (simp_all add: afterInsertions_Cons afterInsertion_def logged_def)
qed

text \<open>
  C6. An error returned by \<open>getTables\<close>, \<open>getService\<close> or \<open>getDocument\<close> ends the process
  with its diagnostic, at the history of the failed step, and so does a \<open>log.Fatalf\<close>
  inside \<open>getService\<close>. After these three steps, when neither \<open>clearDocument\<close> nor the
  insertion of any table, each at the history the steps before it left, ends in a panic:
  \<open>main\<close> runs to its end, whatever errors these steps return; the history is that of
  \<open>clearDocument\<close> and of the insertion of every table, in order, each followed by its
  printed error if it returned one; and so it holds, for each table, its insert-table
  request or its printed validation error.
\<close>

theorem main_error_handling:
  "(\<forall>err w1. getTables env w = (Failed err, w1) \<longrightarrow>
      main env w = (Halted (Fatal (FailedToGetTables err)), w1)) \<and>
   (\<forall>tables w1. getTables env w = (Ok tables, w1) \<longrightarrow>
      (\<forall>err w2. getService env w1 = (Failed err, w2) \<longrightarrow>
         main env w = (Halted (Fatal (FailedToGetService err)), w2)) \<and>
      (\<forall>h w2. getService env w1 = (Halted h, w2) \<longrightarrow>
         main env w = (Halted h, w2) \<and> (\<exists>d. h = Fatal d)) \<and>
      (\<forall>srv w2. getService env w1 = (Ok srv, w2) \<longrightarrow>
         (\<forall>err w3. getDocument env w2 = (Failed err, w3) \<longrightarrow>
            main env w = (Halted (Fatal (FailedToGetDocument err)), w3)) \<and>
         (\<forall>doc w3 cleared w4.
            getDocument env w2 = (Ok doc, w3) \<and>
            clearDocument env (DocumentId doc) w3 = (cleared, w4) \<and>
            (\<forall>h. cleared \<noteq> Halted h) \<and>
            (\<forall>i < length tables. \<forall>h.
               fst (insertTableToDocument env (DocumentId doc) (tables ! i)
                      (afterInsertions env (DocumentId doc) (take i tables)
                         (logged cleared w4))) \<noteq> Halted h) \<longrightarrow>
            main env w =
              (Ok (), afterInsertions env (DocumentId doc) tables (logged cleared w4)) \<and>
            filter isAttempt (drop (length w3) (snd (main env w))) =
              map (attemptOf (DocumentId doc)) tables)))"
proof (intro conjI allI impI)
  fix err w1 assume "getTables env w = (Failed err, w1)"
  then show "main env w = (Halted (Fatal (FailedToGetTables err)), w1)"
    by (simp add: main_def)
next
  fix tables w1 err w2
  assume "getTables env w = (Ok tables, w1)" and "getService env w1 = (Failed err, w2)"
  then show "main env w = (Halted (Fatal (FailedToGetService err)), w2)"
    by (simp add: main_def)
next
  fix tables w1 h w2
  assume "getTables env w = (Ok tables, w1)" and h: "getService env w1 = (Halted h, w2)"
  then show "main env w = (Halted h, w2)"
    by (simp add: main_def)
  from h have "fst (getService env w1) = Halted h" by simp
  then show "\<exists>d. h = Fatal d" by (rule getService_halt)
next
  fix tables w1 srv w2 err w3
  assume "getTables env w = (Ok tables, w1)" and "getService env w1 = (Ok srv, w2)"
    and "getDocument env w2 = (Failed err, w3)"
  then show "main env w = (Halted (Fatal (FailedToGetDocument err)), w3)"
    by (simp add: main_def)
next
  fix tables w1 srv w2 doc w3 cleared w4
  assume gt: "getTables env w = (Ok tables, w1)" and gs: "getService env w1 = (Ok srv, w2)"
    and a: "getDocument env w2 = (Ok doc, w3) \<and>
            clearDocument env (DocumentId doc) w3 = (cleared, w4) \<and>
            (\<forall>h. cleared \<noteq> Halted h) \<and>
            (\<forall>i < length tables. \<forall>h.
               fst (insertTableToDocument env (DocumentId doc) (tables ! i)
                      (afterInsertions env (DocumentId doc) (take i tables)
                         (logged cleared w4))) \<noteq> Halted h)"
  then have gd: "getDocument env w2 = (Ok doc, w3)"
    and cl: "clearDocument env (DocumentId doc) w3 = (cleared, w4)"
    and nh: "\<forall>h. cleared \<noteq> Halted h"
    and steps: "\<forall>i < length tables. \<forall>h.
               fst (insertTableToDocument env (DocumentId doc) (tables ! i)
                      (afterInsertions env (DocumentId doc) (take i tables)
                         (logged cleared w4))) \<noteq> Halted h"
    by simp_all
  let ?w5 = "logged cleared w4"
  from gt gs gd cl nh
  have m: "main env w = insertTables env (DocumentId doc) tables ?w5"
    by (cases cleared) (simp_all add: main_def logged_def)
  note run = insertTables_fold [OF steps]
  with m show fin: "main env w = (Ok (), afterInsertions env (DocumentId doc) tables ?w5)"
    by simp
  from clearDocument_history [OF cl] obtain ext1 where
    w4: "w4 = w3 @ ext1" and f1: "filter isAttempt ext1 = []"
    and fe: "\<forall>err. cleared = Failed err \<longrightarrow> \<not> isAttempt (Print (ErrorMsg err))"
    by blast
  have "\<forall>p. Ok () \<noteq> Halted (Panic p)" by simp
  from insertTables_attempts [OF run this] obtain ext2 where
    w': "afterInsertions env (DocumentId doc) tables ?w5 = ?w5 @ ext2"
    and f2: "filter isAttempt ext2 = map (attemptOf (DocumentId doc)) tables"
    by blast
  have "filter isAttempt (drop (length w3) (?w5 @ ext2)) =
      map (attemptOf (DocumentId doc)) tables"
    using w4 f1 fe f2 by (cases cleared) (simp_all add: logged_def)
  with fin w' show "filter isAttempt (drop (length w3) (snd (main env w))) =
      map (attemptOf (DocumentId doc)) tables"
    by simp
qed

theorem main_error_handling_witness:
  "main (env0\<lparr>http_Get := \<lambda>h url. Inl ''timeout''\<rparr>) [] =
     (Halted (Fatal (FailedToGetTables (External ''timeout''))), [HttpGet CONFLUENCE_URL]) \<and>
   main (env0\<lparr>os_ReadFile := \<lambda>h p. Inl ''no such file''\<rparr>) [] =
     (Halted (Fatal (FailedToGetService (UnableToReadSecret ''no such file''))),
      [HttpGet CONFLUENCE_URL, ReadFile CREDENTIALS_PATH]) \<and>
   main (env0\<lparr>Documents_Create := \<lambda>h t. Inl ''quota''\<rparr>) [] =
     (Halted (Fatal (FailedToGetDocument (External ''quota''))),
      [HttpGet CONFLUENCE_URL, ReadFile CREDENTIALS_PATH, OpenRead TOKEN_PATH,
       NewService ''{}'' ''token'', ReadFile DOCUMENT_ID_PATH,
       DocsCreate ''HFLabsTestTaskTableDocument'']) \<and>
   main (env0\<lparr>Documents_Get := \<lambda>h d. Inl ''unavailable''\<rparr>) [] =
     (Ok (),
      [HttpGet CONFLUENCE_URL, ReadFile CREDENTIALS_PATH, OpenRead TOKEN_PATH,
       NewService ''{}'' ''token'', ReadFile DOCUMENT_ID_PATH,
       DocsCreate ''HFLabsTestTaskTableDocument'', WriteFile DOCUMENT_ID_PATH ''doc1'',
       DocsGet ''doc1'', Print (ErrorMsg (External ''unavailable'')),
       DocsBatchUpdate ''doc1'' [InsertTable 1 1], DocsGet ''doc1'',
       Print (ErrorMsg (External ''unavailable'')), Print (ErrorMsg EmptyTable)]) \<and>
   main (env0\<lparr>Documents_Get := \<lambda>h d. Inr cellDocument\<rparr>) [] =
     (Ok (),
      [HttpGet CONFLUENCE_URL, ReadFile CREDENTIALS_PATH, OpenRead TOKEN_PATH,
       NewService ''{}'' ''token'', ReadFile DOCUMENT_ID_PATH,
       DocsCreate ''HFLabsTestTaskTableDocument'', WriteFile DOCUMENT_ID_PATH ''doc1'',
       DocsGet ''doc1'', DocsBatchUpdate ''doc1'' [DeleteContentRange 1 7],
       DocsBatchUpdate ''doc1'' [InsertTable 1 1], DocsGet ''doc1'',
       DocsBatchUpdate ''doc1'' [InsertText ''<b>x</b>'' 4], Print (ErrorMsg EmptyTable)]) \<and>
   filter isAttempt
     (drop 7 (snd (main (env0\<lparr>Documents_Get := \<lambda>h d. Inr cellDocument\<rparr>) []))) =
     [DocsBatchUpdate ''doc1'' [InsertTable 1 1], Print (ErrorMsg EmptyTable)]"
proof -
  let ?down = "env0\<lparr>Documents_Get := \<lambda>h d. Inl ''unavailable''\<rparr>"
  let ?cell = "env0\<lparr>Documents_Get := \<lambda>h d. Inr cellDocument\<rparr>"
  let ?tables = "[\<lparr>contents = [\<lparr>entries = [''<b>x</b>'']\<rparr>]\<rparr>, \<lparr>contents = []\<rparr>]"
  let ?w1 = "[HttpGet CONFLUENCE_URL]"
  let ?w2 = "?w1 @ [ReadFile CREDENTIALS_PATH, OpenRead TOKEN_PATH, NewService ''{}'' ''token'']"
  let ?w3 = "?w2 @ [ReadFile DOCUMENT_ID_PATH, DocsCreate ''HFLabsTestTaskTableDocument'',
                    WriteFile DOCUMENT_ID_PATH ''doc1'']"
  let ?doc = "\<lparr>DocumentId = ''doc1'', Body = Some \<lparr>Content = []\<rparr>\<rparr>"
  note scrape = getTables_def stripHtmlTags_def env0_def
  note service = getService_def getClient_def tokenFromFile_def env0_def
  note locate = getDocument_def env0_def CREDENTIALS_PATH_def DOCUMENT_ID_PATH_def
  note steps = afterInsertions_def afterInsertion_def logged_def insertTableToDocument_def
    env0_def cellDocument_def runeWidth_def

  have f1: "getTables (env0\<lparr>http_Get := \<lambda>h url. Inl ''timeout''\<rparr>) [] =
      (Failed (External ''timeout''), ?w1)"
    by (simp add: scrape)
  have gt2: "getTables (env0\<lparr>os_ReadFile := \<lambda>h p. Inl ''no such file''\<rparr>) [] = (Ok ?tables, ?w1)"
    by (simp add: scrape)
  have f2: "getService (env0\<lparr>os_ReadFile := \<lambda>h p. Inl ''no such file''\<rparr>) ?w1 =
      (Failed (UnableToReadSecret ''no such file''), ?w1 @ [ReadFile CREDENTIALS_PATH])"
    by (simp add: service)
  have gt3: "getTables (env0\<lparr>Documents_Create := \<lambda>h t. Inl ''quota''\<rparr>) [] = (Ok ?tables, ?w1)"
    by (simp add: scrape)
  have gs3: "getService (env0\<lparr>Documents_Create := \<lambda>h t. Inl ''quota''\<rparr>) ?w1 =
      (Ok (''{}'', ''token''), ?w2)"
    by (simp add: service)
  have f3: "getDocument (env0\<lparr>Documents_Create := \<lambda>h t. Inl ''quota''\<rparr>) ?w2 =
      (Failed (External ''quota''),
       ?w2 @ [ReadFile DOCUMENT_ID_PATH, DocsCreate ''HFLabsTestTaskTableDocument''])"
    by (simp add: locate)

  have gtD: "getTables ?down [] = (Ok ?tables, ?w1)" by (simp add: scrape)
  have gsD: "getService ?down ?w1 = (Ok (''{}'', ''token''), ?w2)" by (simp add: service)
  have gdD: "getDocument ?down ?w2 = (Ok ?doc, ?w3)" by (simp add: locate)
  have clD: "clearDocument ?down (DocumentId ?doc) ?w3 =
      (Failed (External ''unavailable''), ?w3 @ [DocsGet ''doc1''])"
    by (simp add: clearDocument_def env0_def)
  have stD: "\<forall>i < length ?tables. \<forall>h.
      fst (insertTableToDocument ?down (DocumentId ?doc) (?tables ! i)
             (afterInsertions ?down (DocumentId ?doc) (take i ?tables)
                (logged (Failed (External ''unavailable'')) (?w3 @ [DocsGet ''doc1''])))) \<noteq>
      Halted h"
    by (simp add: All_less_Suc steps)
  have afD: "afterInsertions ?down (DocumentId ?doc) ?tables
      (logged (Failed (External ''unavailable'')) (?w3 @ [DocsGet ''doc1''])) =
      ?w3 @ [DocsGet ''doc1'', Print (ErrorMsg (External ''unavailable'')),
             DocsBatchUpdate ''doc1'' [InsertTable 1 1], DocsGet ''doc1'',
             Print (ErrorMsg (External ''unavailable'')), Print (ErrorMsg EmptyTable)]"
    by (simp add: steps)

  have gtC: "getTables ?cell [] = (Ok ?tables, ?w1)" by (simp add: scrape)
  have gsC: "getService ?cell ?w1 = (Ok (''{}'', ''token''), ?w2)" by (simp add: service)
  have gdC: "getDocument ?cell ?w2 = (Ok ?doc, ?w3)" by (simp add: locate)
  have clC: "clearDocument ?cell (DocumentId ?doc) ?w3 =
      (Ok (), ?w3 @ [DocsGet ''doc1'', DocsBatchUpdate ''doc1'' [DeleteContentRange 1 7]])"
    by (simp add: clearDocument_def env0_def cellDocument_def)
  have stC: "\<forall>i < length ?tables. \<forall>h.
      fst (insertTableToDocument ?cell (DocumentId ?doc) (?tables ! i)
             (afterInsertions ?cell (DocumentId ?doc) (take i ?tables)
                (logged (Ok ())
                   (?w3 @ [DocsGet ''doc1'', DocsBatchUpdate ''doc1'' [DeleteContentRange 1 7]])))) \<noteq>
      Halted h"
    by (simp add: All_less_Suc steps)
  have afC: "afterInsertions ?cell (DocumentId ?doc) ?tables
      (logged (Ok ())
         (?w3 @ [DocsGet ''doc1'', DocsBatchUpdate ''doc1'' [DeleteContentRange 1 7]])) =
      ?w3 @ [DocsGet ''doc1'', DocsBatchUpdate ''doc1'' [DeleteContentRange 1 7],
             DocsBatchUpdate ''doc1'' [InsertTable 1 1], DocsGet ''doc1'',
             DocsBatchUpdate ''doc1'' [InsertText ''<b>x</b>'' 4], Print (ErrorMsg EmptyTable)]"
    by (simp add: steps)
  have atC: "map (attemptOf (DocumentId ?doc)) ?tables =
      [DocsBatchUpdate ''doc1'' [InsertTable 1 1], Print (ErrorMsg EmptyTable)]"
    by (simp add: attemptOf_def)
  have l3: "length ?w3 = 7" by simp

  note a = main_error_handling [of "env0\<lparr>http_Get := \<lambda>h url. Inl ''timeout''\<rparr>" "[]"]
  note b = main_error_handling [of "env0\<lparr>os_ReadFile := \<lambda>h p. Inl ''no such file''\<rparr>" "[]"]
  note c = main_error_handling [of "env0\<lparr>Documents_Create := \<lambda>h t. Inl ''quota''\<rparr>" "[]"]
  note d = main_error_handling [of ?down "[]"]
  note e = main_error_handling [of ?cell "[]"]
  from a f1 have r1: "main (env0\<lparr>http_Get := \<lambda>h url. Inl ''timeout''\<rparr>) [] =
     (Halted (Fatal (FailedToGetTables (External ''timeout''))), ?w1)"
    by blast
  from b gt2 f2 have r2: "main (env0\<lparr>os_ReadFile := \<lambda>h p. Inl ''no such file''\<rparr>) [] =
     (Halted (Fatal (FailedToGetService (UnableToReadSecret ''no such file''))),
      ?w1 @ [ReadFile CREDENTIALS_PATH])"
    by blast
  from c gt3 gs3 f3 have r3: "main (env0\<lparr>Documents_Create := \<lambda>h t. Inl ''quota''\<rparr>) [] =
     (Halted (Fatal (FailedToGetDocument (External ''quota''))),
      ?w2 @ [ReadFile DOCUMENT_ID_PATH, DocsCreate ''HFLabsTestTaskTableDocument''])"
    by blast
  have nhD: "\<forall>h. Failed (External ''unavailable'') \<noteq> (Halted h :: unit result)" by simp
  from d gtD gsD gdD clD nhD stD
  have "main ?down [] =
      (Ok (), afterInsertions ?down (DocumentId ?doc) ?tables
         (logged (Failed (External ''unavailable'')) (?w3 @ [DocsGet ''doc1''])))"
    by blast
  then have r4: "main ?down [] =
      (Ok (), ?w3 @ [DocsGet ''doc1'', Print (ErrorMsg (External ''unavailable'')),
             DocsBatchUpdate ''doc1'' [InsertTable 1 1], DocsGet ''doc1'',
             Print (ErrorMsg (External ''unavailable'')), Print (ErrorMsg EmptyTable)])"
    by (simp only: afD)
  have nhC: "\<forall>h. Ok () \<noteq> (Halted h :: unit result)" by simp
  from e gtC gsC gdC clC nhC stC
  have both: "main ?cell [] =
      (Ok (), afterInsertions ?cell (DocumentId ?doc) ?tables
         (logged (Ok ())
            (?w3 @ [DocsGet ''doc1'', DocsBatchUpdate ''doc1'' [DeleteContentRange 1 7]]))) \<and>
      filter isAttempt (drop (length ?w3) (snd (main ?cell []))) =
        map (attemptOf (DocumentId ?doc)) ?tables"
    by blast
  then have r5: "main ?cell [] =
      (Ok (), ?w3 @ [DocsGet ''doc1'', DocsBatchUpdate ''doc1'' [DeleteContentRange 1 7],
             DocsBatchUpdate ''doc1'' [InsertTable 1 1], DocsGet ''doc1'',
             DocsBatchUpdate ''doc1'' [InsertText ''<b>x</b>'' 4], Print (ErrorMsg EmptyTable)])"
    by (simp only: afC)
  from both have "filter isAttempt (drop (length ?w3) (snd (main ?cell []))) =
      map (attemptOf (DocumentId ?doc)) ?tables"
    by (rule conjunct2)
  then have r6: "filter isAttempt (drop 7 (snd (main ?cell []))) =
      [DocsBatchUpdate ''doc1'' [InsertTable 1 1], Print (ErrorMsg EmptyTable)]"
    by (simp only: l3 atC)
  from r1 r2 r3 r4 r5 r6 show ?thesis by simp
qed

end
